theory Spec2Isabelle
  imports Main "HOL-Library.Word"
begin

unbundle bit_operations_syntax

section \<open>Data model of sd-dhcp6-client.c\<close>

text \<open>
  \<open>usec_t\<close> is systemd's 64-bit unsigned time in microseconds; all arithmetic on it
  wraps modulo \<open>2 ^ 64\<close>, as C's unsigned arithmetic does.
\<close>

type_synonym usec_t = "64 word"

text \<open>
  The macros \<open>USEC_PER_SEC\<close>, \<open>USEC_PER_MSEC\<close> (time-util.h) and
  \<open>DHCP6_SOL_TIMEOUT\<close>, \<open>DHCP6_SOL_MAX_RT\<close> (dhcp6-protocol.h) are used by
  sd-dhcp6-client.c and declared in headers that are not part of the sources at hand.
  They are parameters of the model, of type \<open>usec_t\<close>.
\<close>

record dhcp6_consts =
  USEC_PER_SEC :: usec_t
  USEC_PER_MSEC :: usec_t
  DHCP6_SOL_TIMEOUT :: usec_t
  DHCP6_SOL_MAX_RT :: usec_t

text \<open>The values systemd gives them: one second is \<open>10^6\<close> microseconds, the
  Solicit timeouts of RFC 3315 are 1 s and 120 s.\<close>

definition systemd_consts :: dhcp6_consts where
  "systemd_consts =
     \<lparr>USEC_PER_SEC = 1000000, USEC_PER_MSEC = 1000,
      DHCP6_SOL_TIMEOUT = 1 * 1000000, DHCP6_SOL_MAX_RT = 120 * 1000000\<rparr>"

text \<open>
  \<open>client_timeout_compute_random\<close>, lines 150-153.  \<open>random_u32()\<close> yields a
  32-bit value, passed here as \<open>rnd\<close>; it is widened to 64 bits by the remainder
  with the 64-bit \<open>2 * USEC_PER_SEC\<close>.  The C expression groups as
  \<open>(val - val / 10) + ((((rnd % (2 * S)) * val) / 10) / S)\<close>.
\<close>

definition client_timeout_compute_random :: "dhcp6_consts \<Rightarrow> 32 word \<Rightarrow> usec_t \<Rightarrow> usec_t" where
  "client_timeout_compute_random K rnd val =
     val - val div 10 +
     (ucast rnd mod (2 * USEC_PER_SEC K)) * val div 10 div USEC_PER_SEC K"

subsection \<open>Error numbers, states, events\<close>

text \<open>The \<open>errno\<close> values of Linux that the file returns negated.\<close>

definition EINVAL :: int where "EINVAL = 22"
definition ENOMEM :: int where "ENOMEM = 12"
definition EBUSY :: int where "EBUSY = 16"

text \<open>\<open>enum DHCP6State\<close>: the three values the \<open>switch\<close> of
  \<open>client_timeout_resend\<close> (lines 170-182) distinguishes.\<close>

datatype DHCP6State = DHCP6_STATE_STOPPED | DHCP6_STATE_RS | DHCP6_STATE_SOLICITATION

text \<open>
  Modelled from the spec: the event codes of sd-dhcp6-client.h, which is not among the
  sources at hand.  "Event codes: Stop, RetransmitMax, ResendExpire, plus a generic error
  code carrying a numeric failure cause."  In C all of them are passed as one \<open>int\<close>;
  \<open>DHCP6_EVENT_ERRNO r\<close> stands for \<open>client_stop(client, r)\<close> with the negative
  return value \<open>r\<close> of a failed call.
\<close>

datatype dhcp6_event =
  DHCP6_EVENT_STOP | DHCP6_EVENT_RESEND_EXPIRE | DHCP6_EVENT_RETRANS_MAX | DHCP6_EVENT_ERRNO int

subsection \<open>The event loop, as the client consumes it\<close>

text \<open>
  Modelled from the spec: sd-event is outside the sources at hand and is consumed through
  "scheduleAt(clock, absolute_time, slack, callback, context) -> timer_handle | error;
  cancel(timer_handle); setPriority(timer_handle, priority); now(clock) -> timestamp".
  A timer handle records what it was scheduled with.  Whether a call succeeds is decided by
  the event loop: its return value \<open>r\<close> is an input of the model, and a negative \<open>r\<close>
  leaves the handle it was given untouched.
\<close>

datatype time_handler = Client_timeout_resend | Client_timeout_resend_expire

record sd_event_source =
  src_usec :: usec_t
  src_accuracy :: usec_t
  src_handler :: time_handler
  src_priority :: int

definition sd_event_add_time ::
  "int \<Rightarrow> sd_event_source option \<Rightarrow> usec_t \<Rightarrow> usec_t \<Rightarrow> time_handler
     \<Rightarrow> int \<times> sd_event_source option" where
  "sd_event_add_time r slot usec accuracy handler =
     (if r < 0 then (r, slot)
      else (r, Some \<lparr>src_usec = usec, src_accuracy = accuracy, src_handler = handler,
                      src_priority = 0\<rparr>))"

definition sd_event_source_set_priority ::
  "int \<Rightarrow> sd_event_source option \<Rightarrow> int \<Rightarrow> int \<times> sd_event_source option" where
  "sd_event_source_set_priority r s priority =
     (if r < 0 then (r, s) else (r, map_option (\<lambda>x. x\<lparr>src_priority := priority\<rparr>) s))"

text \<open>\<open>sd_event_source_unref\<close> drops the client's reference to a timer, which cancels
  it, and always yields \<open>NULL\<close>.\<close>

definition sd_event_source_unref :: "sd_event_source option \<Rightarrow> sd_event_source option" where
  "sd_event_source_unref s = None"

text \<open>An event loop is a handle; \<open>sd_event_ref\<close> returns the handle it is given,
  \<open>sd_event_unref\<close> returns \<open>NULL\<close>, \<open>sd_event_default\<close> stores the default loop
  in the slot when it succeeds.\<close>

definition sd_event_ref :: "nat \<Rightarrow> nat option" where
  "sd_event_ref e = Some e"

definition sd_event_unref :: "nat option \<Rightarrow> nat option" where
  "sd_event_unref e = None"

definition sd_event_default :: "int \<times> nat \<Rightarrow> nat option \<Rightarrow> int \<times> nat option" where
  "sd_event_default dflt slot = (if fst dflt < 0 then (fst dflt, slot) else (fst dflt, Some (snd dflt)))"

text \<open>What the outside world answers during one run of a timer handler or of
  \<open>client_start\<close>: the draw of \<open>random_u32()\<close>, the result and time of
  \<open>sd_event_now\<close>, and the results of the calls that schedule the resend timer and the
  expire timer and set their priorities.\<close>

record sched_env =
  random_u32 :: "32 word"
  sd_event_now_r :: int
  sd_event_now_usec :: usec_t
  add_time_r :: int
  set_priority_r :: int
  add_time_expire_r :: int
  set_priority_expire_r :: int

subsection \<open>The client\<close>

text \<open>
  Modelled from the spec: \<open>DHCP6IA\<close> is declared in dhcp6-internal.h, outside the
  sources at hand.  "Lease/Binding (IA_NA): { option_code: fixed tag,
  interface_association_id: u32, t1_timer_handle: optional, t2_timer_handle: optional }".
\<close>

record DHCP6IA =
  ia_type :: "16 word"
  ia_id :: "32 word"
  timeout_t1 :: "sd_event_source option"
  timeout_t2 :: "sd_event_source option"

text \<open>
  \<open>struct sd_dhcp6_client\<close>, lines 40-61.  Pointers to the event loop, to the callback
  and to its user data are handles (\<open>None\<close> is \<open>NULL\<close>).  \<open>RefCount\<close> (refcnt.h)
  wraps an unsigned counter: \<open>REFCNT_INC\<close> and \<open>REFCNT_DEC\<close> add and subtract one
  and yield the new value.
\<close>

record sd_dhcp6_client =
  n_ref :: "32 word"
  state :: DHCP6State
  event :: "nat option"
  event_priority :: int
  index :: int
  mac_addr :: "8 word list"
  ia_na :: DHCP6IA
  retransmit_time :: usec_t
  retransmit_count :: "8 word"
  timeout_resend :: "sd_event_source option"
  timeout_resend_expire :: "sd_event_source option"
  cb :: "nat option"
  userdata :: nat
  duid_type :: "16 word"
  duid_pen :: "32 word"
  duid_id :: "8 word list"

text \<open>
  The behaviour of the registered callbacks: \<open>call k client event userdata\<close> is the
  client object as the callback behind the function pointer \<open>k\<close> leaves it.  A callback
  may use the whole public interface on the client, so it may change any field, the
  reference count included.
\<close>

type_synonym callbacks = "nat \<Rightarrow> sd_dhcp6_client \<Rightarrow> dhcp6_event \<Rightarrow> nat \<Rightarrow> sd_dhcp6_client"

text \<open>A run either returns or ends in \<open>abort()\<close> through a failed \<open>assert\<close> or
  \<open>assert_se\<close>.\<close>

datatype 'a exec = Abort | Return 'a

text \<open>\<open>sd_dhcp6_client_set_callback\<close>, lines 63-72.\<close>

definition sd_dhcp6_client_set_callback ::
  "sd_dhcp6_client option \<Rightarrow> nat option \<Rightarrow> nat \<Rightarrow> int \<times> sd_dhcp6_client option" where
  "sd_dhcp6_client_set_callback p f u =
     (case p of None \<Rightarrow> (- EINVAL, None)
      | Some client \<Rightarrow> (0, Some (client\<lparr>cb := f, userdata := u\<rparr>)))"

text \<open>\<open>client_initialize\<close>, lines 107-125.\<close>

definition client_initialize :: "sd_dhcp6_client option \<Rightarrow> int \<times> sd_dhcp6_client option" where
  "client_initialize p =
     (case p of None \<Rightarrow> (- EINVAL, None)
      | Some client \<Rightarrow>
          (0, Some (client
            \<lparr>ia_na := (ia_na client)
               \<lparr>timeout_t1 := sd_event_source_unref (timeout_t1 (ia_na client)),
                timeout_t2 := sd_event_source_unref (timeout_t2 (ia_na client))\<rparr>,
             retransmit_time := 0,
             retransmit_count := 0,
             timeout_resend := sd_event_source_unref (timeout_resend client),
             timeout_resend_expire := sd_event_source_unref (timeout_resend_expire client),
             state := DHCP6_STATE_STOPPED\<rparr>)))"

text \<open>\<open>sd_dhcp6_client_detach_event\<close>, lines 364-370.\<close>

definition sd_dhcp6_client_detach_event ::
  "sd_dhcp6_client option \<Rightarrow> int \<times> sd_dhcp6_client option" where
  "sd_dhcp6_client_detach_event p =
     (case p of None \<Rightarrow> (- EINVAL, None)
      | Some client \<Rightarrow> (0, Some (client\<lparr>event := sd_event_unref (event client)\<rparr>)))"

text \<open>\<open>sd_dhcp6_client_ref\<close>, lines 379-384: \<open>assert_se(REFCNT_INC(n_ref) >= 2)\<close>
  aborts when it fails.\<close>

definition sd_dhcp6_client_ref :: "sd_dhcp6_client option \<Rightarrow> sd_dhcp6_client option exec" where
  "sd_dhcp6_client_ref p =
     (case p of None \<Rightarrow> Return None
      | Some client \<Rightarrow>
          (let client = client\<lparr>n_ref := n_ref client + 1\<rparr>
           in if n_ref client \<ge> 2 then Return (Some client) else Abort))"

text \<open>\<open>sd_dhcp6_client_unref\<close>, lines 386-398: the last reference reinitializes the
  client, detaches the event loop and frees it; the result is then \<open>NULL\<close>.\<close>

definition sd_dhcp6_client_unref :: "sd_dhcp6_client option \<Rightarrow> sd_dhcp6_client option" where
  "sd_dhcp6_client_unref p =
     (case p of None \<Rightarrow> None
      | Some client \<Rightarrow>
          (let client = client\<lparr>n_ref := n_ref client - 1\<rparr>
           in if n_ref client \<le> 0 then
                (let p1 = snd (client_initialize (Some client));
                     p2 = snd (sd_dhcp6_client_detach_event p1)
                 in None)
              else Some client))"

text \<open>
  \<open>client_notify\<close>, lines 97-105.  The list \<open>seen\<close> is the sequence of events
  delivered to the observer so far; a call of the callback appends its event.
\<close>

definition client_notify ::
  "callbacks \<Rightarrow> sd_dhcp6_client \<Rightarrow> dhcp6_event \<Rightarrow> dhcp6_event list
     \<Rightarrow> (sd_dhcp6_client option \<times> dhcp6_event list) exec" where
  "client_notify call client ev seen =
     (case cb client of
        None \<Rightarrow> Return (Some client, seen)
      | Some k \<Rightarrow>
          (case sd_dhcp6_client_ref (Some client) of
             Abort \<Rightarrow> Abort
           | Return None \<Rightarrow> Return (None, seen)
           | Return (Some client1) \<Rightarrow>
               (let client2 = call k client1 ev (userdata client1)
                in Return (sd_dhcp6_client_unref (Some client2), seen @ [ev]))))"

text \<open>\<open>client_stop\<close>, lines 127-135.\<close>

definition client_stop ::
  "callbacks \<Rightarrow> sd_dhcp6_client option \<Rightarrow> dhcp6_event \<Rightarrow> dhcp6_event list
     \<Rightarrow> (sd_dhcp6_client option \<times> dhcp6_event list) exec" where
  "client_stop call p ev seen =
     (case p of None \<Rightarrow> Return (None, seen)
      | Some client \<Rightarrow>
          (case client_notify call client ev seen of
             Abort \<Rightarrow> Abort
           | Return (None, seen1) \<Rightarrow> Return (None, seen1)
           | Return (Some client1, seen1) \<Rightarrow>
               Return (snd (client_initialize (Some client1)), seen1)))"

text \<open>\<open>client_timeout_resend_expire\<close>, lines 137-148; the fired source \<open>s\<close> and the
  client are not \<open>NULL\<close> when the event loop calls the handler.\<close>

definition client_timeout_resend_expire ::
  "callbacks \<Rightarrow> sd_dhcp6_client \<Rightarrow> dhcp6_event list
     \<Rightarrow> (int \<times> sd_dhcp6_client option \<times> dhcp6_event list) exec" where
  "client_timeout_resend_expire call client seen =
     (if event client = None then Abort
      else case client_stop call (Some client) DHCP6_EVENT_RESEND_EXPIRE seen of
             Abort \<Rightarrow> Abort
           | Return (p, seen1) \<Rightarrow> Return (0, p, seen1))"

subsection \<open>The resend timer\<close>

text \<open>The label \<open>error:\<close> of \<open>client_timeout_resend\<close> (lines 242-246) when it is
  reached with \<open>r < 0\<close>: the client is stopped with \<open>r\<close> as the event and the handler
  returns 0.\<close>

definition client_timeout_resend_error ::
  "callbacks \<Rightarrow> int \<Rightarrow> sd_dhcp6_client \<Rightarrow> dhcp6_event list
     \<Rightarrow> (int \<times> sd_dhcp6_client option \<times> dhcp6_event list) exec" where
  "client_timeout_resend_error call r client seen =
     (case client_stop call (Some client) (DHCP6_EVENT_ERRNO r) seen of
        Abort \<Rightarrow> Abort
      | Return (p, seen1) \<Rightarrow> Return (0, p, seen1))"

text \<open>
  Lines 184-246 of \<open>client_timeout_resend\<close>, which run with the four parameters the
  \<open>switch\<close> has chosen for the state.
\<close>

definition client_timeout_resend_sched ::
  "dhcp6_consts \<Rightarrow> callbacks \<Rightarrow> sched_env \<Rightarrow> sd_dhcp6_client \<Rightarrow> dhcp6_event list
     \<Rightarrow> usec_t \<Rightarrow> usec_t \<Rightarrow> 8 word \<Rightarrow> usec_t
     \<Rightarrow> (int \<times> sd_dhcp6_client option \<times> dhcp6_event list) exec" where
  "client_timeout_resend_sched K call env client seen
       init_retransmit_time max_retransmit_time max_retransmit_count max_retransmit_duration =
     (if max_retransmit_count \<noteq> 0 \<and> retransmit_count client \<ge> max_retransmit_count then
        (case client_stop call (Some client) DHCP6_EVENT_RETRANS_MAX seen of
           Abort \<Rightarrow> Abort
         | Return (p, seen1) \<Rightarrow> Return (0, p, seen1))
      else
        let r = sd_event_now_r env; time_now = sd_event_now_usec env in
        if r < 0 then client_timeout_resend_error call r client seen
        else
          let client = client\<lparr>retransmit_time :=
                (if retransmit_time client = 0 then
                   client_timeout_compute_random K (random_u32 env) init_retransmit_time
                 else if max_retransmit_time \<noteq> 0
                         \<and> retransmit_time client > max_retransmit_time div 2 then
                   client_timeout_compute_random K (random_u32 env) max_retransmit_time
                 else
                   retransmit_time client
                     + client_timeout_compute_random K (random_u32 env) (retransmit_time client))\<rparr>;
              (r, slot) = sd_event_add_time (add_time_r env) (timeout_resend client)
                            (time_now + retransmit_time client) (10 * USEC_PER_MSEC K)
                            Client_timeout_resend;
              client = client\<lparr>timeout_resend := slot\<rparr>
          in
          if r < 0 then client_timeout_resend_error call r client seen
          else
            let (r, slot) = sd_event_source_set_priority (set_priority_r env)
                              (timeout_resend client) (event_priority client);
                client = client\<lparr>timeout_resend := slot\<rparr>
            in
            if r < 0 then client_timeout_resend_error call r client seen
            else if max_retransmit_duration \<noteq> 0 \<and> timeout_resend_expire client = None then
              let (r, slot) = sd_event_add_time (add_time_expire_r env)
                                (timeout_resend_expire client)
                                (time_now + max_retransmit_duration) (USEC_PER_SEC K)
                                Client_timeout_resend_expire;
                  client = client\<lparr>timeout_resend_expire := slot\<rparr>
              in
              if r < 0 then client_timeout_resend_error call r client seen
              else
                let (r, slot) = sd_event_source_set_priority (set_priority_expire_r env)
                                  (timeout_resend_expire client) (event_priority client);
                    client = client\<lparr>timeout_resend_expire := slot\<rparr>
                in
                if r < 0 then client_timeout_resend_error call r client seen
                else Return (0, Some client, seen)
            else Return (0, Some client, seen))"

text \<open>\<open>client_timeout_resend\<close>, lines 155-247: the asserts, the release of the fired
  timer and the \<open>switch\<close> on the state.\<close>

definition client_timeout_resend ::
  "dhcp6_consts \<Rightarrow> callbacks \<Rightarrow> sched_env \<Rightarrow> sd_dhcp6_client \<Rightarrow> dhcp6_event list
     \<Rightarrow> (int \<times> sd_dhcp6_client option \<times> dhcp6_event list) exec" where
  "client_timeout_resend K call env client seen =
     (if event client = None then Abort
      else
        let client = client\<lparr>timeout_resend := sd_event_source_unref (timeout_resend client)\<rparr>
        in case state client of
             DHCP6_STATE_SOLICITATION \<Rightarrow>
               client_timeout_resend_sched K call env client seen
                 (DHCP6_SOL_TIMEOUT K) (DHCP6_SOL_MAX_RT K) 0 0
           | DHCP6_STATE_STOPPED \<Rightarrow> Return (0, Some client, seen)
           | DHCP6_STATE_RS \<Rightarrow> Return (0, Some client, seen))"

subsection \<open>The interface association identifier\<close>

text \<open>\<open>HASH_KEY\<close>, line 38, and \<open>ETH_ALEN\<close>, the six bytes of an Ethernet address.\<close>

definition HASH_KEY :: "8 word list" where
  "HASH_KEY = [0x80, 0x11, 0x8c, 0xc2, 0xfe, 0x4a, 0x03, 0xee,
               0x3e, 0xd6, 0x0c, 0x6f, 0x36, 0x39, 0x14, 0x09]"

definition ETH_ALEN :: nat where "ETH_ALEN = 6"

text \<open>
  What the collaborators of \<open>client_ensure_iaid\<close> answer.  A looked-up device reports
  whether it is initialized and its predictable name (\<open>net_get_name\<close>, \<open>None\<close> for
  \<open>NULL\<close>, else the bytes before the terminator).  \<open>detect_container\<close> is the
  return value of \<open>detect_container(NULL)\<close>; \<open>udev_new\<close> says whether the udev context
  could be allocated; \<open>udev_device_new_from_device_id\<close> maps the interface index
  (the device id \<open>n<index>\<close>) to the device or to the \<open>errno\<close> of the failure;
  \<open>siphash24 bytes key\<close> is the 64-bit value that \<open>siphash24\<close> leaves in \<open>id\<close>.
\<close>

record udev_device =
  udev_device_get_is_initialized :: int
  net_get_name :: "8 word list option"

record iaid_env =
  detect_container :: int
  udev_new :: bool
  udev_device_new_from_device_id :: "int \<Rightarrow> int + udev_device"
  siphash24 :: "8 word list \<Rightarrow> 8 word list \<Rightarrow> 64 word"

text \<open>Lines 280-290 of \<open>client_ensure_iaid\<close>: hash the name, or the hardware address
  when there is none, and fold the 64 bits into the 32 bits of \<open>ia_na.id\<close>.\<close>

definition client_ensure_iaid_hash ::
  "iaid_env \<Rightarrow> sd_dhcp6_client \<Rightarrow> 8 word list option \<Rightarrow> int \<times> sd_dhcp6_client" where
  "client_ensure_iaid_hash env client name =
     (let id = (case name of
                  Some n \<Rightarrow> siphash24 env n HASH_KEY
                | None \<Rightarrow> siphash24 env (take ETH_ALEN (mac_addr client)) HASH_KEY)
      in (0, client\<lparr>ia_na := (ia_na client)
                \<lparr>ia_id := ucast ((id AND 0xffffffff) XOR (drop_bit 32 id))\<rparr>\<rparr>))"

text \<open>\<open>client_ensure_iaid\<close>, lines 249-291.\<close>

definition client_ensure_iaid :: "iaid_env \<Rightarrow> sd_dhcp6_client \<Rightarrow> int \<times> sd_dhcp6_client" where
  "client_ensure_iaid env client =
     (if ia_id (ia_na client) \<noteq> 0 then (0, client)
      else if detect_container env \<le> 0 then
        (if \<not> udev_new env then (- ENOMEM, client)
         else case udev_device_new_from_device_id env (index client) of
                Inl errno \<Rightarrow> (- errno, client)
              | Inr device \<Rightarrow>
                  if udev_device_get_is_initialized device \<le> 0 then (- EBUSY, client)
                  else client_ensure_iaid_hash env client (net_get_name device))
      else client_ensure_iaid_hash env client None)"

subsection \<open>Start, stop, attach\<close>

text \<open>\<open>client_start\<close>, lines 293-319.\<close>

definition client_start ::
  "iaid_env \<Rightarrow> sched_env \<Rightarrow> sd_dhcp6_client option \<Rightarrow> int \<times> sd_dhcp6_client option" where
  "client_start uenv env p =
     (case p of None \<Rightarrow> (- EINVAL, None)
      | Some client \<Rightarrow>
          if event client = None then (- EINVAL, Some client)
          else if \<not> index client > 0 then (- EINVAL, Some client)
          else
            let (r, client) = client_ensure_iaid uenv client in
            if r < 0 then (r, Some client)
            else
              let client = client\<lparr>state := DHCP6_STATE_SOLICITATION\<rparr>;
                  (r, slot) = sd_event_add_time (add_time_r env) (timeout_resend client) 0 0
                                Client_timeout_resend;
                  client = client\<lparr>timeout_resend := slot\<rparr>
              in
              if r < 0 then (r, Some client)
              else
                let (r, slot) = sd_event_source_set_priority (set_priority_r env)
                                  (timeout_resend client) (event_priority client);
                    client = client\<lparr>timeout_resend := slot\<rparr>
                in if r < 0 then (r, Some client) else (0, Some client))"

text \<open>\<open>sd_dhcp6_client_stop\<close>, lines 321-326.\<close>

definition sd_dhcp6_client_stop ::
  "callbacks \<Rightarrow> sd_dhcp6_client option \<Rightarrow> dhcp6_event list
     \<Rightarrow> (int \<times> sd_dhcp6_client option \<times> dhcp6_event list) exec" where
  "sd_dhcp6_client_stop call p seen =
     (case client_stop call p DHCP6_EVENT_STOP seen of
        Abort \<Rightarrow> Abort
      | Return (p1, seen1) \<Rightarrow> Return (0, p1, seen1))"

text \<open>\<open>sd_dhcp6_client_start\<close>, lines 328-341.\<close>

definition sd_dhcp6_client_start ::
  "iaid_env \<Rightarrow> sched_env \<Rightarrow> sd_dhcp6_client option \<Rightarrow> int \<times> sd_dhcp6_client option" where
  "sd_dhcp6_client_start uenv env p =
     (case p of None \<Rightarrow> (- EINVAL, None)
      | Some client \<Rightarrow>
          if event client = None then (- EINVAL, Some client)
          else if \<not> index client > 0 then (- EINVAL, Some client)
          else
            let (r, p1) = client_initialize (Some client) in
            if r < 0 then (r, p1) else client_start uenv env p1)"

text \<open>\<open>sd_dhcp6_client_attach_event\<close>, lines 343-362; \<open>dflt\<close> is what
  \<open>sd_event_default\<close> answers: its return value and the default loop.\<close>

definition sd_dhcp6_client_attach_event ::
  "int \<times> nat \<Rightarrow> sd_dhcp6_client option \<Rightarrow> nat option \<Rightarrow> int \<Rightarrow> int \<times> sd_dhcp6_client option" where
  "sd_dhcp6_client_attach_event dflt p ev priority =
     (case p of None \<Rightarrow> (- EINVAL, None)
      | Some client \<Rightarrow>
          if event client \<noteq> None then (- EBUSY, Some client)
          else
            (case ev of
               Some e \<Rightarrow>
                 (0, Some (client\<lparr>event := sd_event_ref e, event_priority := priority\<rparr>))
             | None \<Rightarrow>
                 (let (r, slot) = sd_event_default dflt (event client);
                      client = client\<lparr>event := slot\<rparr>
                  in if r < 0 then (0, Some client)
                     else (0, Some (client\<lparr>event_priority := priority\<rparr>)))))"

subsection \<open>Concrete clients and environments\<close>

text \<open>A client as \<open>sd_dhcp6_client_new\<close> leaves it, after interface index 2 and a
  hardware address have been set and the event loop 1 has been attached.\<close>

definition example_client :: sd_dhcp6_client where
  "example_client =
     \<lparr>n_ref = 1, state = DHCP6_STATE_STOPPED, event = Some 1, event_priority = 0, index = 2,
      mac_addr = [0x52, 0x54, 0x00, 0x12, 0x34, 0x56],
      ia_na = \<lparr>ia_type = 3, ia_id = 0, timeout_t1 = None, timeout_t2 = None\<rparr>,
      retransmit_time = 0, retransmit_count = 0,
      timeout_resend = None, timeout_resend_expire = None,
      cb = None, userdata = 0,
      duid_type = 2, duid_pen = 43793, duid_id = [0, 0, 0, 0, 0, 0, 0, 0]\<rparr>"

text \<open>Inside a container: the device database is not consulted.\<close>

definition container_env :: "(8 word list \<Rightarrow> 8 word list \<Rightarrow> 64 word) \<Rightarrow> iaid_env" where
  "container_env h =
     \<lparr>detect_container = 1, udev_new = True,
      udev_device_new_from_device_id = (\<lambda>i. Inl 19), siphash24 = h\<rparr>"

text \<open>On the host, with a device that reports \<open>initialized\<close> and \<open>name\<close>.\<close>

definition host_env ::
  "int \<Rightarrow> 8 word list option \<Rightarrow> (8 word list \<Rightarrow> 8 word list \<Rightarrow> 64 word) \<Rightarrow> iaid_env" where
  "host_env initialized name h =
     \<lparr>detect_container = 0, udev_new = True,
      udev_device_new_from_device_id =
        (\<lambda>i. Inr \<lparr>udev_device_get_is_initialized = initialized, net_get_name = name\<rparr>),
      siphash24 = h\<rparr>"

text \<open>Two stand-ins for the keyed hash at concrete inputs: one whose 64-bit values have
  equal halves, so that they fold to zero, and one whose values fold to a non-zero
  identifier for short inputs.\<close>

definition equal_halves_hash :: "8 word list \<Rightarrow> 8 word list \<Rightarrow> 64 word" where
  "equal_halves_hash bytes key = of_nat (length bytes) * 0x100000001"

definition length_hash :: "8 word list \<Rightarrow> 8 word list \<Rightarrow> 64 word" where
  "length_hash bytes key = of_nat (length bytes) + 1"

text \<open>The bytes of the interface name \<open>eth0\<close>.\<close>

definition eth0 :: "8 word list" where
  "eth0 = [0x65, 0x74, 0x68, 0x30]"

text \<open>A callback that looks at the event and leaves the client object alone.\<close>

definition observer :: callbacks where
  "observer k client ev u = client"

text \<open>The client after \<open>client_start\<close>: soliciting, with the zero-delay resend timer
  pending; and a client in the middle of solicitation with an observer registered.\<close>

definition solicit_client :: sd_dhcp6_client where
  "solicit_client =
     example_client
       \<lparr>state := DHCP6_STATE_SOLICITATION,
        ia_na := \<lparr>ia_type = 3, ia_id = 7, timeout_t1 = None, timeout_t2 = None\<rparr>,
        timeout_resend := Some \<lparr>src_usec = 0, src_accuracy = 0,
                                src_handler = Client_timeout_resend, src_priority = 0\<rparr>\<rparr>"

definition running_client :: sd_dhcp6_client where
  "running_client =
     solicit_client
       \<lparr>retransmit_time := 900000,
        timeout_resend := Some \<lparr>src_usec = 5900000, src_accuracy = 10000,
                                src_handler = Client_timeout_resend, src_priority = 0\<rparr>,
        cb := Some 1, userdata := 5\<rparr>"

text \<open>An event loop on which every call succeeds, at time 5 s, with random draw 0.\<close>

definition sched_ok :: sched_env where
  "sched_ok =
     \<lparr>random_u32 = 0, sd_event_now_r = 0, sd_event_now_usec = 5000000,
      add_time_r = 0, set_priority_r = 0, add_time_expire_r = 0, set_priority_expire_r = 0\<rparr>"

section \<open>Data model of resolved-dns-rr.h\<close>

text \<open>\<open>struct DnsResourceKey\<close>, lines 64-68; the name is the string the pointer owns.\<close>

record DnsResourceKey =
  key_class :: "16 word"
  key_type :: "16 word"
  key_name :: string

text \<open>
  Modelled from the spec: \<open>dns_resource_key_compare_func\<close> and
  \<open>dns_resource_key_hash_func\<close> are only declared in resolved-dns-rr.h (lines 114-115);
  their bodies are not among the sources at hand.  "Identity is the triple; equality and
  hash must be defined over all three fields" and "keyHash(key) / keyEqual(a, b): must
  agree -- equal keys hash equal; compare all three fields."  Names are compared byte by
  byte.  The hash is a function \<open>mix\<close> of the three fields and the hash key; the spec
  does not say which.
\<close>

definition keyEqual :: "DnsResourceKey \<Rightarrow> DnsResourceKey \<Rightarrow> bool" where
  "keyEqual a b \<longleftrightarrow>
     key_class a = key_class b \<and> key_type a = key_type b \<and> key_name a = key_name b"

definition keyHash ::
  "(16 word \<Rightarrow> 16 word \<Rightarrow> string \<Rightarrow> 8 word list \<Rightarrow> 64 word)
     \<Rightarrow> DnsResourceKey \<Rightarrow> 8 word list \<Rightarrow> 64 word" where
  "keyHash mix k hash_key = mix (key_class k) (key_type k) (key_name k) hash_key"

text \<open>\<open>DNS_CLASS_IN\<close> and \<open>DNS_TYPE_A\<close>, lines 35 and 42.\<close>

definition DNS_CLASS_IN :: "16 word" where "DNS_CLASS_IN = 0x01"
definition DNS_TYPE_A :: "16 word" where "DNS_TYPE_A = 0x01"

text \<open>A mixing function for concrete inputs.\<close>

definition example_mix :: "16 word \<Rightarrow> 16 word \<Rightarrow> string \<Rightarrow> 8 word list \<Rightarrow> 64 word" where
  "example_mix c t n hash_key = ucast c XOR push_bit 16 (ucast t) XOR of_nat (length n + length hash_key)"

section \<open>Arithmetic of the jittered backoff\<close>

lemma jitter_le_nat:
  fixes S r v :: nat
  assumes "0 < S" "r < 2 * S"
  shows "10 * (((r * v) mod M) div 10 div S) \<le> 2 * v"
proof -
  let ?P = "(r * v) mod M"
  let ?j = "?P div 10 div S"
  have "?j * (10 * S) \<le> ?P" by (simp add: div_mult2_eq[symmetric])
  also have "?P \<le> r * v" by simp
  also have "r * v \<le> (2 * S) * v" using assms by (simp add: mult_le_mono1)
  finally have "(10 * ?j) * S \<le> (2 * v) * S" by (simp add: ac_simps)
  with assms(1) show ?thesis by simp
qed

lemma no_wrap_nat:
  fixes S r v :: nat
  assumes "0 < S" "r < 2 * S" "v < 2 ^ 64"
  shows "v - v div 10 + ((r * v) mod 2 ^ 64) div 10 div S < 2 ^ 64"
proof (cases "r \<le> 1")
  case True
  then have "(r * v) mod 2 ^ 64 \<le> v" using assms(3)
    by (cases "r = 0") (auto simp: le_Suc_eq)
  then have "((r * v) mod 2 ^ 64) div 10 \<le> v div 10" by (rule div_le_mono)
  moreover have "((r * v) mod 2 ^ 64) div 10 div S \<le> ((r * v) mod 2 ^ 64) div 10"
    by (rule div_le_dividend)
  ultimately show ?thesis using assms(3) by linarith
next
  case False
  then have S2: "2 \<le> S" using assms(2) by linarith
  have "((r * v) mod 2 ^ 64) div 10 div S \<le> ((r * v) mod 2 ^ 64) div 10 div 2"
    using S2 by (intro div_le_mono2) auto
  moreover have "(r * v) mod 2 ^ 64 < (2::nat) ^ 64" by simp
  ultimately show ?thesis using assms(3) by simp
qed

lemma unat_twice:
  fixes S :: "64 word"
  assumes "S < 2 ^ 63"
  shows "unat (2 * S) = 2 * unat S"
proof -
  have "unat S < 2 ^ 63" using assms by (simp add: word_less_nat_alt)
  then have "2 * unat S < 2 ^ 64" by simp
  then show ?thesis by (simp add: unat_word_ariths)
qed

lemma unat_compute_random:
  fixes rnd :: "32 word" and val :: "64 word"
  assumes "0 < USEC_PER_SEC K" "USEC_PER_SEC K < 2 ^ 63"
  shows "unat (client_timeout_compute_random K rnd val) =
     unat val - unat val div 10 +
     ((unat rnd mod (2 * unat (USEC_PER_SEC K))) * unat val mod 2 ^ 64) div 10
       div unat (USEC_PER_SEC K)"
proof -
  define S where "S = USEC_PER_SEC K"
  let ?r = "unat rnd mod (2 * unat S)"
  let ?j = "(?r * unat val mod 2 ^ 64) div 10 div unat S"
  have S0: "0 < unat S" using assms(1) by (simp add: S_def word_less_nat_alt)
  have S63: "S < 2 ^ 63" using assms(2) by (simp add: S_def)
  have r_lt: "?r < 2 * unat S" using S0 by simp
  have r_eq: "unat ((ucast rnd :: 64 word) mod (2 * S)) = ?r"
  proof -
    have "unat rnd < 2 ^ 32" using unsigned_less[of rnd] by simp
    then have "unat rnd < 2 ^ 64" by simp
    then have "unat (ucast rnd :: 64 word) = unat rnd"
      by (simp add: unsigned_ucast_eq take_bit_nat_eq_self)
    then show ?thesis by (simp add: unat_mod unat_twice[OF S63])
  qed
  have j_eq: "unat ((ucast rnd mod (2 * S)) * val div 10 div S) = ?j"
  proof -
    define X :: "64 word" where "X = ucast rnd mod (2 * S)"
    have "unat (X * val div 10 div S) = unat (X * val) div 10 div unat S"
      by (simp add: unat_div)
    also have "unat (X * val) = unat X * unat val mod 2 ^ 64"
      by (simp add: unat_word_ariths(2))
    also have "unat X = ?r" unfolding X_def by (rule r_eq)
    finally show ?thesis unfolding X_def .
  qed
  have a_eq: "unat (val - val div 10) = unat val - unat val div 10"
  proof -
    have "val div 10 \<le> val"
      by (simp add: word_le_nat_alt unat_div)
    then show ?thesis by (simp add: unat_sub unat_div)
  qed
  have "unat val < 2 ^ 64" using unsigned_less[of val] by simp
  then have "unat val - unat val div 10 + ?j < 2 ^ 64"
    by (rule no_wrap_nat[OF S0 r_lt])
  moreover have "(2::nat) ^ LENGTH(64) = 2 ^ 64" by simp
  ultimately have "unat (val - val div 10) +
      unat ((ucast rnd mod (2 * S)) * val div 10 div S) < 2 ^ LENGTH(64)"
    by (simp only: a_eq j_eq)
  then have "unat ((val - val div 10) + (ucast rnd mod (2 * S)) * val div 10 div S)
      = unat val - unat val div 10 + ?j"
    by (simp only: unat_add_lem[THEN iffD1] a_eq j_eq)
  then show ?thesis by (simp add: client_timeout_compute_random_def S_def)
qed

lemma tenth_lower_aux:
  fixes v q j :: nat
  assumes "10 * q \<le> v"
  shows "9 * v \<le> 10 * (v - q + j)"
proof -
  have "q \<le> v" using assms by linarith
  then obtain d where d: "v = q + d" using le_Suc_ex by blast
  then have "v - q = d" by simp
  then show ?thesis using assms d by simp
qed

lemma tenth_upper_aux:
  fixes v q j :: nat
  assumes "v \<le> 10 * q + 9" "10 * j \<le> 2 * v" "q \<le> v"
  shows "10 * (v - q + j) \<le> 11 * v + 9"
proof -
  obtain d where d: "v = q + d" using assms(3) le_Suc_ex by blast
  then have "v - q = d" by simp
  then show ?thesis using assms d by simp
qed

lemma tenth_lower_nat:
  fixes v j :: nat
  shows "9 * v \<le> 10 * (v - v div 10 + j)"
  by (rule tenth_lower_aux) simp

lemma tenth_upper_nat:
  fixes v j :: nat
  assumes "10 * j \<le> 2 * v"
  shows "10 * (v - v div 10 + j) \<le> 11 * v + 9"
proof (rule tenth_upper_aux[OF _ assms])
  have "v = 10 * (v div 10) + v mod 10" by simp
  moreover have "v mod 10 \<le> 9" by simp
  ultimately show "v \<le> 10 * (v div 10) + 9"
    by (rule ord_eq_le_trans[OF _ add_left_mono])
  show "v div 10 \<le> v" by simp
qed

lemma compute_random_lower:
  assumes "0 < USEC_PER_SEC K" "USEC_PER_SEC K < 2 ^ 63"
  shows "9 * unat val \<le> 10 * unat (client_timeout_compute_random K rnd val)"
  unfolding unat_compute_random[OF assms] by (rule tenth_lower_nat)

lemma compute_random_upper:
  assumes "0 < USEC_PER_SEC K" "USEC_PER_SEC K < 2 ^ 63"
  shows "10 * unat (client_timeout_compute_random K rnd val) \<le> 11 * unat val + 9"
proof -
  have S0: "0 < unat (USEC_PER_SEC K)" using assms(1) by (simp add: word_less_nat_alt)
  have "10 * (((unat rnd mod (2 * unat (USEC_PER_SEC K))) * unat val mod 2 ^ 64) div 10
       div unat (USEC_PER_SEC K)) \<le> 2 * unat val"
    using S0 by (intro jitter_le_nat) simp_all
  then show ?thesis unfolding unat_compute_random[OF assms] by (rule tenth_upper_nat)
qed

text \<open>
  C1.  For every duration \<open>val\<close> and every 32-bit random draw \<open>rnd\<close>,
  \<open>client_timeout_compute_random\<close> returns \<open>val - val/10 + (rnd mod 2 SECOND) * val / 10 / SECOND\<close>
  (the product taken modulo \<open>2^64\<close>, the outer sum never wrapping), and the result lies
  in \<open>[0.9 val, 1.1 val]\<close>, the upper bound rounded up to the next integer.  The
  constant \<open>USEC_PER_SEC\<close> may be any value in \<open>(0, 2^63)\<close>.
\<close>

theorem client_timeout_compute_random_jitter:
  assumes "0 < USEC_PER_SEC K" and "USEC_PER_SEC K < 2 ^ 63"
  shows "client_timeout_compute_random K rnd val =
           val - val div 10 + (ucast rnd mod (2 * USEC_PER_SEC K)) * val div 10 div USEC_PER_SEC K
       \<and> unat (client_timeout_compute_random K rnd val) =
           unat val - unat val div 10 +
           ((unat rnd mod (2 * unat (USEC_PER_SEC K))) * unat val mod 2 ^ 64) div 10
             div unat (USEC_PER_SEC K)
       \<and> unat rnd mod (2 * unat (USEC_PER_SEC K)) < 2 * unat (USEC_PER_SEC K)
       \<and> 9 * unat val \<le> 10 * unat (client_timeout_compute_random K rnd val)
       \<and> 10 * unat (client_timeout_compute_random K rnd val) \<le> 11 * unat val + 9"
proof -
  have "0 < unat (USEC_PER_SEC K)" using assms(1) by (simp add: word_less_nat_alt)
  then have "unat rnd mod (2 * unat (USEC_PER_SEC K)) < 2 * unat (USEC_PER_SEC K)" by simp
  then show ?thesis
    using unat_compute_random[OF assms, of rnd val]
      compute_random_lower[OF assms, of val rnd] compute_random_upper[OF assms, of rnd val]
    by (simp only: client_timeout_compute_random_def simp_thms)
qed

theorem client_timeout_compute_random_jitter_witness:
  "0 < USEC_PER_SEC systemd_consts \<and> USEC_PER_SEC systemd_consts < 2 ^ 63
   \<and> client_timeout_compute_random systemd_consts 1999999 9 = 10
   \<and> client_timeout_compute_random systemd_consts 0 1000000 = 900000
   \<and> client_timeout_compute_random systemd_consts 1999999 18446744073709551615
       = 16602071511013003824
   \<and> 9 * unat (9 :: usec_t) \<le> 10 * unat (client_timeout_compute_random systemd_consts 1999999 9)
   \<and> 10 * unat (client_timeout_compute_random systemd_consts 1999999 9) \<le> 11 * unat (9 :: usec_t) + 9"
  using client_timeout_compute_random_jitter [of systemd_consts 1999999 9]
  by (simp add: systemd_consts_def client_timeout_compute_random_def)

section \<open>Derivation of the interface association identifier\<close>

lemma iaid_fold_fits:
  fixes id :: "64 word"
  shows "(ucast (ucast ((id AND 0xffffffff) XOR (drop_bit 32 id)) :: 32 word) :: 64 word)
         = (id AND 0xffffffff) XOR (drop_bit 32 id)"
proof -
  have m: "(0xffffffff :: 64 word) = mask 32" by (simp add: mask_eq_exp_minus_1)
  show ?thesis unfolding m
    by (rule bit_word_eqI) (auto simp: bit_simps dest: bit_imp_le_length)
qed

lemma ensure_iaid_set:
  "ia_id (ia_na client) \<noteq> 0 \<Longrightarrow> client_ensure_iaid env client = (0, client)"
  by (simp add: client_ensure_iaid_def)

lemma ensure_iaid_container:
  "ia_id (ia_na client) = 0 \<Longrightarrow> 0 < detect_container env \<Longrightarrow>
   client_ensure_iaid env client = client_ensure_iaid_hash env client None"
  by (simp add: client_ensure_iaid_def)

lemma ensure_iaid_udev:
  "ia_id (ia_na client) = 0 \<Longrightarrow> detect_container env \<le> 0 \<Longrightarrow> udev_new env \<Longrightarrow>
   udev_device_new_from_device_id env (index client) = Inr device \<Longrightarrow>
   0 < udev_device_get_is_initialized device \<Longrightarrow>
   client_ensure_iaid env client = client_ensure_iaid_hash env client (net_get_name device)"
  by (simp add: client_ensure_iaid_def)

lemma ensure_iaid_not_ready:
  "ia_id (ia_na client) = 0 \<Longrightarrow> detect_container env \<le> 0 \<Longrightarrow> udev_new env \<Longrightarrow>
   udev_device_new_from_device_id env (index client) = Inr device \<Longrightarrow>
   udev_device_get_is_initialized device \<le> 0 \<Longrightarrow>
   client_ensure_iaid env client = (- EBUSY, client)"
  by (simp add: client_ensure_iaid_def)

lemma ensure_iaid_fail_unchanged:
  "fst (client_ensure_iaid env client) < 0 \<Longrightarrow> snd (client_ensure_iaid env client) = client"
  by (auto simp: client_ensure_iaid_def client_ensure_iaid_hash_def Let_def
           split: if_splits sum.splits)

lemma client_start_iaid_failure:
  "event client \<noteq> None \<Longrightarrow> 0 < index client \<Longrightarrow> fst (client_ensure_iaid uenv client) < 0 \<Longrightarrow>
   client_start uenv senv (Some client) = (fst (client_ensure_iaid uenv client), Some client)"
  using ensure_iaid_fail_unchanged[of uenv client]
  by (cases "event client") (simp_all add: client_start_def split_beta)

text \<open>
  C2 (as amended).  The identifier is derived on the first call and never derived again
  once the stored value is non-zero: with a non-zero \<open>ia_na.id\<close> the call returns 0,
  leaves the client as it is and consults no collaborator (the result is the same in
  every environment); so a second call after a successful first call that stored a
  non-zero identifier changes nothing.  The test is \<open>id != 0\<close>; there is no separate
  flag.
\<close>

theorem client_ensure_iaid_cached:
  "(ia_id (ia_na client') \<noteq> 0 \<longrightarrow> (\<forall>env'. client_ensure_iaid env' client' = (0, client')))
   \<and> (fst (client_ensure_iaid env client) = 0
        \<and> ia_id (ia_na (snd (client_ensure_iaid env client))) \<noteq> 0
      \<longrightarrow> (\<forall>env'. client_ensure_iaid env' (snd (client_ensure_iaid env client))
                   = (0, snd (client_ensure_iaid env client))))"
  by (simp add: ensure_iaid_set)

theorem client_ensure_iaid_cached_witness:
  "fst (client_ensure_iaid (container_env length_hash) example_client) = 0
   \<and> ia_id (ia_na (snd (client_ensure_iaid (container_env length_hash) example_client))) = 7
   \<and> client_ensure_iaid (host_env 0 None equal_halves_hash)
        (snd (client_ensure_iaid (container_env length_hash) example_client))
      = (0, snd (client_ensure_iaid (container_env length_hash) example_client))"
proof -
  have id7: "ia_id (ia_na (snd (client_ensure_iaid (container_env length_hash) example_client))) = 7"
    by (simp add: client_ensure_iaid_def client_ensure_iaid_hash_def container_env_def
          length_hash_def example_client_def ETH_ALEN_def)
  have r0: "fst (client_ensure_iaid (container_env length_hash) example_client) = 0"
    by (simp add: client_ensure_iaid_def client_ensure_iaid_hash_def container_env_def
          example_client_def Let_def)
  from id7 have "ia_id (ia_na (snd (client_ensure_iaid (container_env length_hash) example_client))) \<noteq> 0"
    by simp
  with r0 client_ensure_iaid_cached
         [where client' = "snd (client_ensure_iaid (container_env length_hash) example_client)"
            and env = "container_env length_hash" and client = example_client]
  have "client_ensure_iaid (host_env 0 None equal_halves_hash)
          (snd (client_ensure_iaid (container_env length_hash) example_client))
        = (0, snd (client_ensure_iaid (container_env length_hash) example_client))"
    by blast
  with r0 id7 show ?thesis by simp
qed

text \<open>
  The claim C2 as stated fails when the derived identifier is zero.  In a container the
  hardware address (six bytes) is hashed to \<open>0x600000006\<close>, whose halves cancel: the first
  call returns 0 and stores 0.  The second call derives again: on a host whose device is
  not yet initialized it returns \<open>-EBUSY\<close>, and with another hash value it changes the
  stored identifier.
\<close>

theorem client_ensure_iaid_zero_rederived:
  "fst (client_ensure_iaid (container_env equal_halves_hash) example_client) = 0
   \<and> ia_id (ia_na (snd (client_ensure_iaid (container_env equal_halves_hash) example_client))) = 0
   \<and> fst (client_ensure_iaid (host_env 0 None equal_halves_hash)
        (snd (client_ensure_iaid (container_env equal_halves_hash) example_client))) = - EBUSY
   \<and> ia_id (ia_na (snd (client_ensure_iaid (container_env length_hash)
        (snd (client_ensure_iaid (container_env equal_halves_hash) example_client))))) = 7
   \<and> client_ensure_iaid (container_env length_hash)
        (snd (client_ensure_iaid (container_env equal_halves_hash) example_client))
      \<noteq> (0, snd (client_ensure_iaid (container_env equal_halves_hash) example_client))"
proof -
  have c1: "snd (client_ensure_iaid (container_env equal_halves_hash) example_client) = example_client"
    by (simp add: client_ensure_iaid_def client_ensure_iaid_hash_def container_env_def
          equal_halves_hash_def example_client_def ETH_ALEN_def)
  have r1: "fst (client_ensure_iaid (container_env equal_halves_hash) example_client) = 0"
    by (simp add: client_ensure_iaid_def client_ensure_iaid_hash_def container_env_def
          example_client_def Let_def)
  have z: "ia_id (ia_na example_client) = 0" by (simp add: example_client_def)
  have busy: "fst (client_ensure_iaid (host_env 0 None equal_halves_hash) example_client) = - EBUSY"
    by (simp add: client_ensure_iaid_def host_env_def example_client_def)
  have id7: "ia_id (ia_na (snd (client_ensure_iaid (container_env length_hash) example_client))) = 7"
    by (simp add: client_ensure_iaid_def client_ensure_iaid_hash_def container_env_def
          length_hash_def example_client_def ETH_ALEN_def)
  have ne: "client_ensure_iaid (container_env length_hash) example_client \<noteq> (0, example_client)"
  proof
    assume "client_ensure_iaid (container_env length_hash) example_client = (0, example_client)"
    then have "ia_id (ia_na (snd (client_ensure_iaid (container_env length_hash) example_client)))
               = ia_id (ia_na example_client)" by simp
    with id7 z show False by simp
  qed
  show ?thesis unfolding c1 using r1 z busy id7 ne by simp
qed

text \<open>
  C3.  For a client whose identifier is not yet set (\<open>ia_na.id = 0\<close>): inside a container
  the device database is not consulted and the call succeeds with the hash of the
  hardware address; on the host, with the device found and initialized, it succeeds
  with the hash of the predictable name when there is one and with the hash of the
  hardware address otherwise.  In each case the stored identifier is
  \<open>(id64 AND 0xffffffff) XOR (id64 >> 32)\<close>, which fits the 32-bit field; no other field
  changes.
\<close>

theorem client_ensure_iaid_derives:
  assumes "ia_id (ia_na client) = 0"
  shows "(0 < detect_container env \<longrightarrow>
            client_ensure_iaid env client =
              (0, client\<lparr>ia_na := (ia_na client)\<lparr>ia_id :=
                 ucast ((siphash24 env (take ETH_ALEN (mac_addr client)) HASH_KEY AND 0xffffffff)
                    XOR drop_bit 32 (siphash24 env (take ETH_ALEN (mac_addr client)) HASH_KEY))\<rparr>\<rparr>))
       \<and> (detect_container env \<le> 0 \<and> udev_new env
            \<and> udev_device_new_from_device_id env (index client) = Inr device
            \<and> 0 < udev_device_get_is_initialized device \<longrightarrow>
            (\<forall>n. net_get_name device = Some n \<longrightarrow>
               client_ensure_iaid env client =
                 (0, client\<lparr>ia_na := (ia_na client)\<lparr>ia_id :=
                    ucast ((siphash24 env n HASH_KEY AND 0xffffffff)
                       XOR drop_bit 32 (siphash24 env n HASH_KEY))\<rparr>\<rparr>))
            \<and> (net_get_name device = None \<longrightarrow>
               client_ensure_iaid env client =
                 (0, client\<lparr>ia_na := (ia_na client)\<lparr>ia_id :=
                    ucast ((siphash24 env (take ETH_ALEN (mac_addr client)) HASH_KEY AND 0xffffffff)
                       XOR drop_bit 32 (siphash24 env (take ETH_ALEN (mac_addr client)) HASH_KEY))\<rparr>\<rparr>)))
       \<and> (ucast (ucast ((id64 AND 0xffffffff) XOR drop_bit 32 id64) :: 32 word) :: 64 word)
            = (id64 AND 0xffffffff) XOR drop_bit 32 id64"
proof (intro conjI impI allI)
  assume "0 < detect_container env"
  then show "client_ensure_iaid env client =
      (0, client\<lparr>ia_na := (ia_na client)\<lparr>ia_id :=
         ucast ((siphash24 env (take ETH_ALEN (mac_addr client)) HASH_KEY AND 0xffffffff)
            XOR drop_bit 32 (siphash24 env (take ETH_ALEN (mac_addr client)) HASH_KEY))\<rparr>\<rparr>)"
    using assms by (simp add: ensure_iaid_container client_ensure_iaid_hash_def Let_def)
next
  fix n
  assume "detect_container env \<le> 0 \<and> udev_new env
            \<and> udev_device_new_from_device_id env (index client) = Inr device
            \<and> 0 < udev_device_get_is_initialized device"
    and "net_get_name device = Some n"
  then show "client_ensure_iaid env client =
      (0, client\<lparr>ia_na := (ia_na client)\<lparr>ia_id :=
         ucast ((siphash24 env n HASH_KEY AND 0xffffffff)
            XOR drop_bit 32 (siphash24 env n HASH_KEY))\<rparr>\<rparr>)"
    using assms by (simp add: ensure_iaid_udev client_ensure_iaid_hash_def Let_def)
next
  assume "detect_container env \<le> 0 \<and> udev_new env
            \<and> udev_device_new_from_device_id env (index client) = Inr device
            \<and> 0 < udev_device_get_is_initialized device"
    and "net_get_name device = None"
  then show "client_ensure_iaid env client =
      (0, client\<lparr>ia_na := (ia_na client)\<lparr>ia_id :=
         ucast ((siphash24 env (take ETH_ALEN (mac_addr client)) HASH_KEY AND 0xffffffff)
            XOR drop_bit 32 (siphash24 env (take ETH_ALEN (mac_addr client)) HASH_KEY))\<rparr>\<rparr>)"
    using assms by (simp add: ensure_iaid_udev client_ensure_iaid_hash_def Let_def)
next
  show "(ucast (ucast ((id64 AND 0xffffffff) XOR drop_bit 32 id64) :: 32 word) :: 64 word)
          = (id64 AND 0xffffffff) XOR drop_bit 32 id64"
    by (rule iaid_fold_fits)
qed

theorem client_ensure_iaid_derives_witness:
  "ia_id (ia_na example_client) = 0
   \<and> ia_id (ia_na (snd (client_ensure_iaid (container_env length_hash) example_client))) = 7
   \<and> ia_id (ia_na (snd (client_ensure_iaid (host_env 1 (Some eth0) length_hash) example_client))) = 5
   \<and> ia_id (ia_na (snd (client_ensure_iaid (host_env 1 None length_hash) example_client))) = 7
   \<and> fst (client_ensure_iaid (host_env 1 (Some eth0) length_hash) example_client) = 0"
proof -
  have z: "ia_id (ia_na example_client) = 0" by (simp add: example_client_def)
  note th = client_ensure_iaid_derives [OF z]
  have a: "client_ensure_iaid (container_env length_hash) example_client =
      (0, example_client\<lparr>ia_na := (ia_na example_client)\<lparr>ia_id := 7\<rparr>\<rparr>)"
    using th [of "container_env length_hash"]
    by (simp add: container_env_def length_hash_def example_client_def ETH_ALEN_def)
  have b: "client_ensure_iaid (host_env 1 (Some eth0) length_hash) example_client =
      (0, example_client\<lparr>ia_na := (ia_na example_client)\<lparr>ia_id := 5\<rparr>\<rparr>)"
    using th [of "host_env 1 (Some eth0) length_hash"
                 "\<lparr>udev_device_get_is_initialized = 1, net_get_name = Some eth0\<rparr>"]
    by (simp add: host_env_def length_hash_def eth0_def)
  have c: "client_ensure_iaid (host_env 1 None length_hash) example_client =
      (0, example_client\<lparr>ia_na := (ia_na example_client)\<lparr>ia_id := 7\<rparr>\<rparr>)"
    using th [of "host_env 1 None length_hash"
                 "\<lparr>udev_device_get_is_initialized = 1, net_get_name = None\<rparr>"]
    by (simp add: host_env_def length_hash_def example_client_def ETH_ALEN_def)
  show ?thesis unfolding a b c using z by simp
qed

text \<open>
  C6.  When the device database reports the device as not yet initialized,
  \<open>client_ensure_iaid\<close> returns \<open>-EBUSY\<close>.  Whenever \<open>client_ensure_iaid\<close> fails it
  leaves the client as it was, and \<open>client_start\<close> hands the failure to its caller with
  the client unchanged: state, retransmission context, identifier and timers are those
  from before the call.  The failure is not permanent: once the device is initialized the
  same client derives its identifier.
\<close>

theorem client_start_propagates_iaid_failure:
  "(ia_id (ia_na client) = 0 \<and> detect_container env \<le> 0 \<and> udev_new env
      \<and> udev_device_new_from_device_id env (index client) = Inr device
      \<and> udev_device_get_is_initialized device \<le> 0
     \<longrightarrow> client_ensure_iaid env client = (- EBUSY, client)
         \<and> (event client \<noteq> None \<and> 0 < index client
              \<longrightarrow> client_start env senv (Some client) = (- EBUSY, Some client))
         \<and> fst (client_ensure_iaid
                  (env\<lparr>udev_device_new_from_device_id :=
                         (\<lambda>i. Inr (device\<lparr>udev_device_get_is_initialized := 1\<rparr>))\<rparr>)
                  (snd (client_ensure_iaid env client))) = 0)
   \<and> (fst (client_ensure_iaid env client) < 0
     \<longrightarrow> snd (client_ensure_iaid env client) = client
         \<and> (event client \<noteq> None \<and> 0 < index client
              \<longrightarrow> client_start env senv (Some client)
                    = (fst (client_ensure_iaid env client), Some client)))"
proof (intro conjI impI)
  assume h: "ia_id (ia_na client) = 0 \<and> detect_container env \<le> 0 \<and> udev_new env
      \<and> udev_device_new_from_device_id env (index client) = Inr device
      \<and> udev_device_get_is_initialized device \<le> 0"
  then show busy: "client_ensure_iaid env client = (- EBUSY, client)"
    by (simp add: ensure_iaid_not_ready)
  have neg: "fst (client_ensure_iaid env client) < 0" by (simp add: busy EBUSY_def)
  show "fst (client_ensure_iaid
                  (env\<lparr>udev_device_new_from_device_id :=
                         (\<lambda>i. Inr (device\<lparr>udev_device_get_is_initialized := 1\<rparr>))\<rparr>)
                  (snd (client_ensure_iaid env client))) = 0"
    using h by (simp add: busy client_ensure_iaid_def client_ensure_iaid_hash_def Let_def)
  assume "event client \<noteq> None \<and> 0 < index client"
  then show "client_start env senv (Some client) = (- EBUSY, Some client)"
    using client_start_iaid_failure[of client env senv] neg by (simp add: busy)
next
  assume "fst (client_ensure_iaid env client) < 0"
  then show "snd (client_ensure_iaid env client) = client"
    by (rule ensure_iaid_fail_unchanged)
next
  assume "fst (client_ensure_iaid env client) < 0"
     and "event client \<noteq> None \<and> 0 < index client"
  then show "client_start env senv (Some client)
               = (fst (client_ensure_iaid env client), Some client)"
    by (simp add: client_start_iaid_failure)
qed

theorem client_start_propagates_iaid_failure_witness:
  "client_ensure_iaid (host_env 0 (Some eth0) length_hash) example_client = (- EBUSY, example_client)
   \<and> client_start (host_env 0 (Some eth0) length_hash) sched_ok (Some example_client)
       = (- EBUSY, Some example_client)
   \<and> fst (client_ensure_iaid (host_env 0 (Some eth0) length_hash) example_client) < 0
   \<and> event example_client \<noteq> None \<and> 0 < index example_client"
proof -
  have pre: "ia_id (ia_na example_client) = 0
      \<and> detect_container (host_env 0 (Some eth0) length_hash) \<le> 0
      \<and> udev_new (host_env 0 (Some eth0) length_hash)
      \<and> udev_device_new_from_device_id (host_env 0 (Some eth0) length_hash) (index example_client)
          = Inr \<lparr>udev_device_get_is_initialized = 0, net_get_name = Some eth0\<rparr>
      \<and> udev_device_get_is_initialized
           \<lparr>udev_device_get_is_initialized = 0, net_get_name = Some eth0\<rparr> \<le> 0"
    by (simp add: host_env_def example_client_def)
  have ev: "event example_client \<noteq> None \<and> 0 < index example_client"
    by (simp add: example_client_def)
  show ?thesis
    using client_start_propagates_iaid_failure
            [of example_client "host_env 0 (Some eth0) length_hash"
                "\<lparr>udev_device_get_is_initialized = 0, net_get_name = Some eth0\<rparr>" sched_ok]
          pre ev
    by (simp add: EBUSY_def)
qed

section \<open>Stopping and notifying\<close>

lemma client_initialize_Some:
  "client_initialize (Some client) =
     (0, Some (client
            \<lparr>ia_na := (ia_na client)\<lparr>timeout_t1 := None, timeout_t2 := None\<rparr>,
             retransmit_time := 0, retransmit_count := 0,
             timeout_resend := None, timeout_resend_expire := None,
             state := DHCP6_STATE_STOPPED\<rparr>))"
  by (simp add: client_initialize_def sd_event_source_unref_def)

lemma client_initialize_stopped:
  "\<exists>c. snd (client_initialize (Some client)) = Some c
       \<and> state c = DHCP6_STATE_STOPPED
       \<and> timeout_resend c = None \<and> timeout_resend_expire c = None
       \<and> timeout_t1 (ia_na c) = None \<and> timeout_t2 (ia_na c) = None
       \<and> retransmit_time c = 0 \<and> retransmit_count c = 0"
  by (simp add: client_initialize_Some)

lemma client_initialize_forgets:
  "snd (client_initialize (Some (client\<lparr>timeout_resend := s\<rparr>))) = snd (client_initialize (Some client))"
  "snd (client_initialize (Some (client\<lparr>retransmit_time := t\<rparr>))) = snd (client_initialize (Some client))"
  by (simp_all add: client_initialize_Some)

lemma client_notify_no_cb:
  "cb client = None \<Longrightarrow> client_notify call client ev seen = Return (Some client, seen)"
  by (simp add: client_notify_def)

lemma client_stop_no_cb:
  "cb client = None \<Longrightarrow>
   client_stop call (Some client) ev seen = Return (snd (client_initialize (Some client)), seen)"
  by (simp add: client_stop_def client_notify_no_cb)

lemma resend_error_no_cb:
  "cb client = None \<Longrightarrow>
   client_timeout_resend_error call r client seen
     = Return (0, snd (client_initialize (Some client)), seen)"
  by (simp add: client_timeout_resend_error_def client_stop_no_cb)

lemma resend_sched_failure_no_cb:
  assumes "cb client = None"
    and "sd_event_now_r env < 0 \<or> add_time_r env < 0 \<or> set_priority_r env < 0"
  shows "client_timeout_resend_sched K call env client seen i m 0 0
           = Return (0, snd (client_initialize (Some client)), seen)"
  using assms
  by (auto simp: client_timeout_resend_sched_def Let_def resend_error_no_cb
        sd_event_add_time_def sd_event_source_set_priority_def client_initialize_forgets)

lemma resend_failure_no_cb:
  assumes "cb client = None" "event client \<noteq> None" "state client = DHCP6_STATE_SOLICITATION"
    and "sd_event_now_r env < 0 \<or> add_time_r env < 0 \<or> set_priority_r env < 0"
  shows "client_timeout_resend K call env client seen
           = Return (0, snd (client_initialize (Some client)), seen)"
proof -
  have "cb (client\<lparr>timeout_resend := None\<rparr>) = None" using assms(1) by simp
  from resend_sched_failure_no_cb[OF this assms(4)] assms(2,3)
  show ?thesis
    by (simp add: client_timeout_resend_def Let_def sd_event_source_unref_def client_initialize_forgets)
qed

lemma resend_sched_max_no_cb:
  assumes "cb client = None" "mc \<noteq> 0" "mc \<le> retransmit_count client"
  shows "client_timeout_resend_sched K call env client seen i m mc d
           = Return (0, snd (client_initialize (Some client)), seen)"
  using assms by (simp add: client_timeout_resend_sched_def client_stop_no_cb)

lemma unref_Some:
  "sd_dhcp6_client_unref (Some client) =
     (if n_ref client = 1 then None else Some (client\<lparr>n_ref := n_ref client - 1\<rparr>))"
  by (simp add: sd_dhcp6_client_unref_def Let_def)

lemma client_notify_cb:
  assumes "cb client = Some k" "2 \<le> n_ref client + 1"
  shows "client_notify call client ev seen =
     Return (sd_dhcp6_client_unref
               (Some (call k (client\<lparr>n_ref := n_ref client + 1\<rparr>) ev (userdata client))),
             seen @ [ev])"
  using assms by (simp add: client_notify_def sd_dhcp6_client_ref_def Let_def)

lemma client_stop_cb:
  assumes "cb client = Some k" "2 \<le> n_ref client + 1"
  shows "client_stop call (Some client) ev seen =
     Return (if n_ref (call k (client\<lparr>n_ref := n_ref client + 1\<rparr>) ev (userdata client)) = 1
             then None
             else snd (client_initialize (Some
                    ((call k (client\<lparr>n_ref := n_ref client + 1\<rparr>) ev (userdata client))
                       \<lparr>n_ref := n_ref (call k (client\<lparr>n_ref := n_ref client + 1\<rparr>) ev
                                         (userdata client)) - 1\<rparr>))),
             seen @ [ev])"
  by (simp add: client_stop_def client_notify_cb[OF assms] unref_Some)

lemma ref_assert_ne_0:
  fixes n :: "32 word"
  assumes "2 \<le> n + 1"
  shows "n + 1 \<noteq> 1"
proof
  assume "n + 1 = 1"
  with assms have "(2::32 word) \<le> 1" by simp
  then show False by (simp add: word_le_nat_alt)
qed

lemma client_stop_observer:
  assumes "cb client = Some k" "2 \<le> n_ref client + 1" "\<forall>c e u. call k c e u = c"
  shows "client_stop call (Some client) ev seen =
     Return (snd (client_initialize (Some client)), seen @ [ev])"
  using assms ref_assert_ne_0[OF assms(2)]
  by (simp add: client_stop_cb[OF assms(1,2)])

text \<open>
  C8.  For a client with a registered callback (on which the reference assertion of
  \<open>sd_dhcp6_client_ref\<close> holds) and for every behaviour of the callbacks,
  \<open>sd_dhcp6_client_stop\<close> returns 0 and delivers exactly one notification, \<open>Stop\<close>.
  The client is then gone exactly when the callback released the last other reference;
  otherwise it is reinitialized: state \<open>STOPPED\<close>, the resend, expire, T1 and T2 timers
  released, retransmission time and count zero.  With a callback that leaves the client
  object alone, the client after the call is the reinitialized client, and stopping it
  again returns 0 again, notifies once more and leaves the client as it is.
\<close>

theorem sd_dhcp6_client_stop_notifies_once:
  assumes "cb client = Some k" and "2 \<le> n_ref client + 1"
  shows "\<exists>p. sd_dhcp6_client_stop call (Some client) seen
               = Return (0, p, seen @ [DHCP6_EVENT_STOP])
           \<and> (p = None \<longleftrightarrow>
                n_ref (call k (client\<lparr>n_ref := n_ref client + 1\<rparr>) DHCP6_EVENT_STOP
                         (userdata client)) = 1)
           \<and> (\<forall>c. p = Some c \<longrightarrow>
                  state c = DHCP6_STATE_STOPPED
                \<and> timeout_resend c = None \<and> timeout_resend_expire c = None
                \<and> timeout_t1 (ia_na c) = None \<and> timeout_t2 (ia_na c) = None
                \<and> retransmit_time c = 0 \<and> retransmit_count c = 0)
           \<and> ((\<forall>c e u. call k c e u = c) \<longrightarrow>
                  p = snd (client_initialize (Some client))
                \<and> sd_dhcp6_client_stop call p (seen @ [DHCP6_EVENT_STOP])
                    = Return (0, p, seen @ [DHCP6_EVENT_STOP, DHCP6_EVENT_STOP]))"
proof -
  let ?c2 = "call k (client\<lparr>n_ref := n_ref client + 1\<rparr>) DHCP6_EVENT_STOP (userdata client)"
  let ?p = "if n_ref ?c2 = 1 then None
            else snd (client_initialize (Some (?c2\<lparr>n_ref := n_ref ?c2 - 1\<rparr>)))"
  show ?thesis
  proof (intro exI[of _ ?p] conjI)
    show "sd_dhcp6_client_stop call (Some client) seen
                = Return (0, ?p, seen @ [DHCP6_EVENT_STOP])"
      by (simp add: sd_dhcp6_client_stop_def client_stop_cb[OF assms])
    show "?p = None \<longleftrightarrow> n_ref ?c2 = 1"
      by (simp add: client_initialize_Some)
    show "\<forall>c. ?p = Some c \<longrightarrow>
                  state c = DHCP6_STATE_STOPPED
                \<and> timeout_resend c = None \<and> timeout_resend_expire c = None
                \<and> timeout_t1 (ia_na c) = None \<and> timeout_t2 (ia_na c) = None
                \<and> retransmit_time c = 0 \<and> retransmit_count c = 0"
      by (auto simp: client_initialize_Some split: if_splits)
    show "(\<forall>c e u. call k c e u = c) \<longrightarrow>
                  ?p = snd (client_initialize (Some client))
                \<and> sd_dhcp6_client_stop call ?p (seen @ [DHCP6_EVENT_STOP])
                    = Return (0, ?p, seen @ [DHCP6_EVENT_STOP, DHCP6_EVENT_STOP])"
    proof
      assume obs: "\<forall>c e u. call k c e u = c"
      have p_eq: "?p = snd (client_initialize (Some client))"
        using obs ref_assert_ne_0[OF assms(2)] by simp
      obtain c1 where c1: "snd (client_initialize (Some client)) = Some c1"
        and cb1: "cb c1 = Some k" and n1: "n_ref c1 = n_ref client"
        using assms(1) by (simp add: client_initialize_Some)
      have "client_stop call (Some c1) DHCP6_EVENT_STOP (seen @ [DHCP6_EVENT_STOP])
              = Return (snd (client_initialize (Some c1)),
                        (seen @ [DHCP6_EVENT_STOP]) @ [DHCP6_EVENT_STOP])"
        using cb1 assms(2) obs by (intro client_stop_observer) (simp_all add: n1)
      moreover have "snd (client_initialize (Some c1)) = Some c1"
        using c1 by (auto simp: client_initialize_Some)
      ultimately have again: "sd_dhcp6_client_stop call (Some c1) (seen @ [DHCP6_EVENT_STOP])
              = Return (0, Some c1, seen @ [DHCP6_EVENT_STOP, DHCP6_EVENT_STOP])"
        by (simp add: sd_dhcp6_client_stop_def)
      show "?p = snd (client_initialize (Some client))
                \<and> sd_dhcp6_client_stop call ?p (seen @ [DHCP6_EVENT_STOP])
                    = Return (0, ?p, seen @ [DHCP6_EVENT_STOP, DHCP6_EVENT_STOP])"
        unfolding p_eq c1 using again by simp
    qed
  qed
qed

theorem sd_dhcp6_client_stop_notifies_once_witness:
  "cb running_client = Some 1 \<and> 2 \<le> n_ref running_client + 1
   \<and> (\<forall>c e u. observer 1 c e u = c)
   \<and> sd_dhcp6_client_stop observer (Some running_client) []
       = Return (0, Some (example_client
                   \<lparr>ia_na := \<lparr>ia_type = 3, ia_id = 7, timeout_t1 = None, timeout_t2 = None\<rparr>,
                    cb := Some 1, userdata := 5\<rparr>),
                 [DHCP6_EVENT_STOP])"
proof -
  have h1: "cb running_client = Some 1" by (simp add: running_client_def)
  have h2: "2 \<le> n_ref running_client + 1"
    by (simp add: running_client_def solicit_client_def example_client_def)
  have h3: "\<forall>c e u. observer 1 c e u = c" by (simp add: observer_def)
  obtain p where stop: "sd_dhcp6_client_stop observer (Some running_client) []
                          = Return (0, p, [] @ [DHCP6_EVENT_STOP])"
    and p: "p = snd (client_initialize (Some running_client))"
    using sd_dhcp6_client_stop_notifies_once
            [where client = running_client and k = 1 and call = observer and seen = "[]",
             OF h1 h2] h3
    by blast
  have "snd (client_initialize (Some running_client)) =
          Some (example_client
                   \<lparr>ia_na := \<lparr>ia_type = 3, ia_id = 7, timeout_t1 = None, timeout_t2 = None\<rparr>,
                    cb := Some 1, userdata := 5\<rparr>)"
    by (simp add: client_initialize_Some running_client_def solicit_client_def example_client_def)
  with stop p h1 h2 h3 show ?thesis by simp
qed

text \<open>
  C10.  For a client with no callback registered, every terminal event reinitializes the
  client and delivers no notification: \<open>client_stop\<close> with any event, the public
  \<open>sd_dhcp6_client_stop\<close>, the expire handler (\<open>ResendExpire\<close>), the resend handler when
  reading the clock or scheduling fails, and the retransmission-count check
  (\<open>RetransmitMax\<close>) all return the client in state \<open>STOPPED\<close> with every timer released,
  and the list of delivered notifications is unchanged.
\<close>

theorem client_stop_without_observer:
  assumes "cb client = None"
  shows "client_stop call (Some client) ev seen
           = Return (snd (client_initialize (Some client)), seen)
       \<and> sd_dhcp6_client_stop call (Some client) seen
           = Return (0, snd (client_initialize (Some client)), seen)
       \<and> (event client \<noteq> None \<longrightarrow>
            client_timeout_resend_expire call client seen
              = Return (0, snd (client_initialize (Some client)), seen))
       \<and> (event client \<noteq> None \<and> state client = DHCP6_STATE_SOLICITATION
            \<and> (sd_event_now_r env < 0 \<or> add_time_r env < 0 \<or> set_priority_r env < 0) \<longrightarrow>
            client_timeout_resend K call env client seen
              = Return (0, snd (client_initialize (Some client)), seen))
       \<and> (max_count \<noteq> 0 \<and> max_count \<le> retransmit_count client \<longrightarrow>
            client_timeout_resend_sched K call env client seen i m max_count d
              = Return (0, snd (client_initialize (Some client)), seen))
       \<and> (\<exists>c. snd (client_initialize (Some client)) = Some c
              \<and> state c = DHCP6_STATE_STOPPED
              \<and> timeout_resend c = None \<and> timeout_resend_expire c = None
              \<and> timeout_t1 (ia_na c) = None \<and> timeout_t2 (ia_na c) = None
              \<and> retransmit_time c = 0 \<and> retransmit_count c = 0)"
proof (intro conjI impI)
  show "client_stop call (Some client) ev seen
           = Return (snd (client_initialize (Some client)), seen)"
    using assms by (rule client_stop_no_cb)
  show "sd_dhcp6_client_stop call (Some client) seen
           = Return (0, snd (client_initialize (Some client)), seen)"
    using assms by (simp add: sd_dhcp6_client_stop_def client_stop_no_cb)
  show "\<exists>c. snd (client_initialize (Some client)) = Some c
              \<and> state c = DHCP6_STATE_STOPPED
              \<and> timeout_resend c = None \<and> timeout_resend_expire c = None
              \<and> timeout_t1 (ia_na c) = None \<and> timeout_t2 (ia_na c) = None
              \<and> retransmit_time c = 0 \<and> retransmit_count c = 0"
    by (rule client_initialize_stopped)
next
  assume "event client \<noteq> None"
  then show "client_timeout_resend_expire call client seen
              = Return (0, snd (client_initialize (Some client)), seen)"
    using assms by (auto simp: client_timeout_resend_expire_def client_stop_no_cb)
next
  assume "event client \<noteq> None \<and> state client = DHCP6_STATE_SOLICITATION
            \<and> (sd_event_now_r env < 0 \<or> add_time_r env < 0 \<or> set_priority_r env < 0)"
  then show "client_timeout_resend K call env client seen
              = Return (0, snd (client_initialize (Some client)), seen)"
    using assms by (intro resend_failure_no_cb) simp_all
next
  assume "max_count \<noteq> 0 \<and> max_count \<le> retransmit_count client"
  then show "client_timeout_resend_sched K call env client seen i m max_count d
              = Return (0, snd (client_initialize (Some client)), seen)"
    using assms by (intro resend_sched_max_no_cb) simp_all
qed

theorem client_stop_without_observer_witness:
  "cb (running_client\<lparr>cb := None\<rparr>) = None
   \<and> event (running_client\<lparr>cb := None\<rparr>) \<noteq> None
   \<and> state (running_client\<lparr>cb := None\<rparr>) = DHCP6_STATE_SOLICITATION
   \<and> add_time_r (sched_ok\<lparr>add_time_r := - 12\<rparr>) < 0
   \<and> (5::8 word) \<noteq> 0 \<and> (5::8 word) \<le> retransmit_count (running_client\<lparr>cb := None, retransmit_count := 5\<rparr>)
   \<and> client_stop observer (Some (running_client\<lparr>cb := None\<rparr>)) (DHCP6_EVENT_ERRNO (- 12)) []
       = Return (Some (example_client
                   \<lparr>ia_na := \<lparr>ia_type = 3, ia_id = 7, timeout_t1 = None, timeout_t2 = None\<rparr>,
                    userdata := 5\<rparr>), [])
   \<and> client_timeout_resend_expire observer (running_client\<lparr>cb := None\<rparr>) []
       = Return (0, Some (example_client
                   \<lparr>ia_na := \<lparr>ia_type = 3, ia_id = 7, timeout_t1 = None, timeout_t2 = None\<rparr>,
                    userdata := 5\<rparr>), [])
   \<and> client_timeout_resend systemd_consts observer (sched_ok\<lparr>add_time_r := - 12\<rparr>)
         (running_client\<lparr>cb := None\<rparr>) []
       = Return (0, Some (example_client
                   \<lparr>ia_na := \<lparr>ia_type = 3, ia_id = 7, timeout_t1 = None, timeout_t2 = None\<rparr>,
                    userdata := 5\<rparr>), [])
   \<and> client_timeout_resend_sched systemd_consts observer sched_ok
         (running_client\<lparr>cb := None, retransmit_count := 5\<rparr>) [] 1000000 120000000 5 0
       = Return (0, Some (example_client
                   \<lparr>ia_na := \<lparr>ia_type = 3, ia_id = 7, timeout_t1 = None, timeout_t2 = None\<rparr>,
                    userdata := 5\<rparr>), [])"
proof -
  let ?c = "running_client\<lparr>cb := None\<rparr>"
  let ?c5 = "running_client\<lparr>cb := None, retransmit_count := 5\<rparr>"
  let ?e = "sched_ok\<lparr>add_time_r := - 12\<rparr>"
  have h1: "cb ?c = None" by simp
  have h5: "cb ?c5 = None" by simp
  have h2: "event ?c \<noteq> None \<and> state ?c = DHCP6_STATE_SOLICITATION"
    by (simp add: running_client_def solicit_client_def example_client_def)
  have h3: "add_time_r ?e < 0" by simp
  have h4: "(5::8 word) \<noteq> 0 \<and> (5::8 word) \<le> retransmit_count ?c5" by simp
  have i1: "snd (client_initialize (Some ?c)) =
      Some (example_client
              \<lparr>ia_na := \<lparr>ia_type = 3, ia_id = 7, timeout_t1 = None, timeout_t2 = None\<rparr>,
               userdata := 5\<rparr>)"
    by (simp add: client_initialize_Some running_client_def solicit_client_def example_client_def)
  have i5: "snd (client_initialize (Some ?c5)) =
      Some (example_client
              \<lparr>ia_na := \<lparr>ia_type = 3, ia_id = 7, timeout_t1 = None, timeout_t2 = None\<rparr>,
               userdata := 5\<rparr>)"
    by (simp add: client_initialize_Some running_client_def solicit_client_def example_client_def)
  note a = client_stop_without_observer
             [where client = ?c and call = observer and seen = "[]" and env = ?e
                and K = systemd_consts and ev = "DHCP6_EVENT_ERRNO (- 12)", OF h1]
  note b = client_stop_without_observer
             [where client = ?c5 and call = observer and seen = "[]" and env = sched_ok
                and K = systemd_consts and max_count = 5 and i = 1000000 and m = 120000000
                and d = 0, OF h5]
  have a1: "client_stop observer (Some ?c) (DHCP6_EVENT_ERRNO (- 12)) []
              = Return (snd (client_initialize (Some ?c)), [])"
    using a by blast
  have a2: "client_timeout_resend_expire observer ?c []
              = Return (0, snd (client_initialize (Some ?c)), [])"
    using a h2 by blast
  have a3: "client_timeout_resend systemd_consts observer ?e ?c []
              = Return (0, snd (client_initialize (Some ?c)), [])"
    using a h2 h3 by blast
  have b1: "client_timeout_resend_sched systemd_consts observer sched_ok ?c5 [] 1000000 120000000 5 0
              = Return (0, snd (client_initialize (Some ?c5)), [])"
    using b h4 by blast
  show ?thesis
    unfolding a1 a2 a3 b1 i1 i5 using h1 h2 h3 h4 by simp
qed

section \<open>The resend handler in state SOLICITATION\<close>

lemma resend_solicitation:
  assumes "event client \<noteq> None" "state client = DHCP6_STATE_SOLICITATION"
  shows "client_timeout_resend K call env client seen =
    (let rt = (if retransmit_time client = 0 then
                 client_timeout_compute_random K (random_u32 env) (DHCP6_SOL_TIMEOUT K)
               else if DHCP6_SOL_MAX_RT K \<noteq> 0
                       \<and> retransmit_time client > DHCP6_SOL_MAX_RT K div 2 then
                 client_timeout_compute_random K (random_u32 env) (DHCP6_SOL_MAX_RT K)
               else retransmit_time client
                      + client_timeout_compute_random K (random_u32 env) (retransmit_time client));
         src = \<lparr>src_usec = sd_event_now_usec env + rt, src_accuracy = 10 * USEC_PER_MSEC K,
                src_handler = Client_timeout_resend, src_priority = 0\<rparr>
     in if sd_event_now_r env < 0 then
          client_timeout_resend_error call (sd_event_now_r env)
            (client\<lparr>timeout_resend := None\<rparr>) seen
        else if add_time_r env < 0 then
          client_timeout_resend_error call (add_time_r env)
            (client\<lparr>retransmit_time := rt, timeout_resend := None\<rparr>) seen
        else if set_priority_r env < 0 then
          client_timeout_resend_error call (set_priority_r env)
            (client\<lparr>retransmit_time := rt, timeout_resend := Some src\<rparr>) seen
        else Return (0, Some (client\<lparr>retransmit_time := rt,
                               timeout_resend :=
                                 Some (src\<lparr>src_priority := event_priority client\<rparr>)\<rparr>), seen))"
  using assms
  by (cases "event client")
     (simp_all add: client_timeout_resend_def client_timeout_resend_sched_def Let_def
        sd_event_source_unref_def sd_event_add_time_def sd_event_source_set_priority_def)

text \<open>
  C4 (as amended).  On a firing of the resend timer in state \<open>SOLICITATION\<close> that reaches
  the scheduling step (the clock was read) and on which scheduling succeeds, the handler
  returns 0 with the next resend pending at \<open>now + retransmit_time\<close>, with the fixed
  slack \<open>10 * USEC_PER_MSEC\<close> and the client's event priority, and without any
  notification; \<open>retransmit_count\<close> is not incremented: it has the value it had before
  the firing.
\<close>

theorem client_timeout_resend_schedules:
  assumes "event client \<noteq> None" and "state client = DHCP6_STATE_SOLICITATION"
    and "0 \<le> sd_event_now_r env" and "0 \<le> add_time_r env" and "0 \<le> set_priority_r env"
  shows "\<exists>c. client_timeout_resend K call env client seen = Return (0, Some c, seen)
           \<and> timeout_resend c =
               Some \<lparr>src_usec = sd_event_now_usec env + retransmit_time c,
                     src_accuracy = 10 * USEC_PER_MSEC K,
                     src_handler = Client_timeout_resend,
                     src_priority = event_priority client\<rparr>
           \<and> retransmit_count c = retransmit_count client"
  using assms(3-5)
  by (simp add: resend_solicitation[OF assms(1,2)] Let_def)

theorem client_timeout_resend_schedules_witness:
  "event solicit_client \<noteq> None \<and> state solicit_client = DHCP6_STATE_SOLICITATION
   \<and> 0 \<le> sd_event_now_r sched_ok \<and> 0 \<le> add_time_r sched_ok \<and> 0 \<le> set_priority_r sched_ok
   \<and> (\<exists>c. client_timeout_resend systemd_consts observer sched_ok solicit_client []
             = Return (0, Some c, [])
         \<and> timeout_resend c =
               Some \<lparr>src_usec = 5000000 + retransmit_time c, src_accuracy = 10000,
                     src_handler = Client_timeout_resend, src_priority = 0\<rparr>
         \<and> retransmit_count c = 0)"
proof -
  have h1: "event solicit_client \<noteq> None"
    by (simp add: solicit_client_def example_client_def)
  have h2: "state solicit_client = DHCP6_STATE_SOLICITATION"
    by (simp add: solicit_client_def)
  have h3: "0 \<le> sd_event_now_r sched_ok" "0 \<le> add_time_r sched_ok" "0 \<le> set_priority_r sched_ok"
    by (simp_all add: sched_ok_def)
  have k: "sd_event_now_usec sched_ok = 5000000" "10 * USEC_PER_MSEC systemd_consts = 10000"
    "event_priority solicit_client = 0" "retransmit_count solicit_client = 0"
    by (simp_all add: sched_ok_def systemd_consts_def solicit_client_def example_client_def)
  show ?thesis
    using client_timeout_resend_schedules
            [where client = solicit_client and env = sched_ok and K = systemd_consts
               and call = observer and seen = "[]", OF h1 h2 h3]
          h1 h2 h3
    by (simp only: k simp_thms)
qed

text \<open>
  The claim C4 as stated fails: nothing increments \<open>retransmit_count\<close>.  A firing on
  which the clock read and the scheduling succeed leaves the count at 0, not at 1.
\<close>

theorem client_timeout_resend_count_not_incremented:
  "client_timeout_resend systemd_consts observer sched_ok solicit_client []
     = Return (0, Some (solicit_client
                 \<lparr>retransmit_time := 900000,
                  timeout_resend := Some \<lparr>src_usec = 5900000, src_accuracy = 10000,
                                          src_handler = Client_timeout_resend,
                                          src_priority = 0\<rparr>\<rparr>), [])
   \<and> retransmit_count solicit_client = 0
   \<and> retransmit_count (solicit_client
                 \<lparr>retransmit_time := 900000,
                  timeout_resend := Some \<lparr>src_usec = 5900000, src_accuracy = 10000,
                                          src_handler = Client_timeout_resend,
                                          src_priority = 0\<rparr>\<rparr>) = 0
   \<and> retransmit_count (solicit_client
                 \<lparr>retransmit_time := 900000,
                  timeout_resend := Some \<lparr>src_usec = 5900000, src_accuracy = 10000,
                                          src_handler = Client_timeout_resend,
                                          src_priority = 0\<rparr>\<rparr>)
       \<noteq> retransmit_count solicit_client + 1"
proof -
  have h1: "event solicit_client \<noteq> None"
    by (simp add: solicit_client_def example_client_def)
  have h2: "state solicit_client = DHCP6_STATE_SOLICITATION"
    by (simp add: solicit_client_def)
  have rt: "retransmit_time solicit_client = 0" "event_priority solicit_client = 0"
    "retransmit_count solicit_client = 0"
    by (simp_all add: solicit_client_def example_client_def)
  have cr: "client_timeout_compute_random systemd_consts 0 (DHCP6_SOL_TIMEOUT systemd_consts) = 900000"
    "10 * USEC_PER_MSEC systemd_consts = 10000"
    by (simp_all add: client_timeout_compute_random_def systemd_consts_def)
  have "client_timeout_resend systemd_consts observer sched_ok solicit_client []
     = Return (0, Some (solicit_client
                 \<lparr>retransmit_time := 900000,
                  timeout_resend := Some \<lparr>src_usec = 5900000, src_accuracy = 10000,
                                          src_handler = Client_timeout_resend,
                                          src_priority = 0\<rparr>\<rparr>), [])"
    unfolding resend_solicitation[OF h1 h2]
    by (simp add: rt sched_ok_def Let_def cr)
  then show ?thesis by (simp add: rt)
qed

text \<open>
  C5 (as amended).  On a firing of the resend timer in state \<open>SOLICITATION\<close> on which the
  clock is read successfully, \<open>retransmit_time\<close> is updated before the next resend is
  scheduled: to the jittered initial timeout if it was zero; else, if the maximum is
  non-zero and the current value exceeds half of it, to the jittered maximum; else to
  itself plus its own jittered value.  When scheduling succeeds the client keeps that
  value; when scheduling fails the client is stopped from the state that holds it.  When
  reading the clock fails, \<open>retransmit_time\<close> is not updated and the client is stopped;
  without an observer it then ends at zero.
\<close>

theorem client_timeout_resend_backoff:
  assumes "event client \<noteq> None" and "state client = DHCP6_STATE_SOLICITATION"
  shows "let rt = (if retransmit_time client = 0 then
                 client_timeout_compute_random K (random_u32 env) (DHCP6_SOL_TIMEOUT K)
               else if DHCP6_SOL_MAX_RT K \<noteq> 0
                       \<and> retransmit_time client > DHCP6_SOL_MAX_RT K div 2 then
                 client_timeout_compute_random K (random_u32 env) (DHCP6_SOL_MAX_RT K)
               else retransmit_time client
                      + client_timeout_compute_random K (random_u32 env) (retransmit_time client))
     in (0 \<le> sd_event_now_r env \<and> 0 \<le> add_time_r env \<and> 0 \<le> set_priority_r env \<longrightarrow>
           (\<exists>c. client_timeout_resend K call env client seen = Return (0, Some c, seen)
               \<and> retransmit_time c = rt
               \<and> map_option src_usec (timeout_resend c) = Some (sd_event_now_usec env + rt)))
      \<and> (0 \<le> sd_event_now_r env \<and> (add_time_r env < 0 \<or> set_priority_r env < 0) \<longrightarrow>
           (\<exists>r c. client_timeout_resend K call env client seen
                     = client_timeout_resend_error call r c seen
                 \<and> r < 0 \<and> retransmit_time c = rt))
      \<and> (sd_event_now_r env < 0 \<longrightarrow>
           client_timeout_resend K call env client seen
             = client_timeout_resend_error call (sd_event_now_r env)
                 (client\<lparr>timeout_resend := None\<rparr>) seen
           \<and> (cb client = None \<longrightarrow>
                (\<exists>c. client_timeout_resend K call env client seen = Return (0, Some c, seen)
                    \<and> retransmit_time c = 0)))"
proof -
  note r = resend_solicitation[OF assms, of K call env seen]
  show ?thesis
    unfolding Let_def
  proof (intro conjI impI)
    assume "0 \<le> sd_event_now_r env \<and> 0 \<le> add_time_r env \<and> 0 \<le> set_priority_r env"
    then show "\<exists>c. client_timeout_resend K call env client seen = Return (0, Some c, seen)
               \<and> retransmit_time c = (if retransmit_time client = 0 then
                 client_timeout_compute_random K (random_u32 env) (DHCP6_SOL_TIMEOUT K)
               else if DHCP6_SOL_MAX_RT K \<noteq> 0
                       \<and> retransmit_time client > DHCP6_SOL_MAX_RT K div 2 then
                 client_timeout_compute_random K (random_u32 env) (DHCP6_SOL_MAX_RT K)
               else retransmit_time client
                      + client_timeout_compute_random K (random_u32 env) (retransmit_time client))
               \<and> map_option src_usec (timeout_resend c) = Some (sd_event_now_usec env + (if retransmit_time client = 0 then
                 client_timeout_compute_random K (random_u32 env) (DHCP6_SOL_TIMEOUT K)
               else if DHCP6_SOL_MAX_RT K \<noteq> 0
                       \<and> retransmit_time client > DHCP6_SOL_MAX_RT K div 2 then
                 client_timeout_compute_random K (random_u32 env) (DHCP6_SOL_MAX_RT K)
               else retransmit_time client
                      + client_timeout_compute_random K (random_u32 env) (retransmit_time client)))"
      by (simp add: r Let_def)
  next
    assume a: "0 \<le> sd_event_now_r env \<and> (add_time_r env < 0 \<or> set_priority_r env < 0)"
    show "\<exists>r c. client_timeout_resend K call env client seen
                     = client_timeout_resend_error call r c seen
                 \<and> r < 0 \<and> retransmit_time c = (if retransmit_time client = 0 then
                 client_timeout_compute_random K (random_u32 env) (DHCP6_SOL_TIMEOUT K)
               else if DHCP6_SOL_MAX_RT K \<noteq> 0
                       \<and> retransmit_time client > DHCP6_SOL_MAX_RT K div 2 then
                 client_timeout_compute_random K (random_u32 env) (DHCP6_SOL_MAX_RT K)
               else retransmit_time client
                      + client_timeout_compute_random K (random_u32 env) (retransmit_time client))"
    proof (cases "add_time_r env < 0")
      case True
      with a show ?thesis
        unfolding r Let_def
        by (intro exI[of _ "add_time_r env"] exI[of _ "client\<lparr>retransmit_time := _, timeout_resend := None\<rparr>"]) simp
    next
      case False
      with a have "set_priority_r env < 0" by simp
      with a False show ?thesis
        unfolding r Let_def
        by (intro exI[of _ "set_priority_r env"] exI[of _ "client\<lparr>retransmit_time := _, timeout_resend := Some _\<rparr>"]) simp
    qed
  next
    assume "sd_event_now_r env < 0"
    then show "client_timeout_resend K call env client seen
             = client_timeout_resend_error call (sd_event_now_r env)
                 (client\<lparr>timeout_resend := None\<rparr>) seen"
      by (simp add: r Let_def)
  next
    assume "sd_event_now_r env < 0" and "cb client = None"
    then show "\<exists>c. client_timeout_resend K call env client seen = Return (0, Some c, seen)
                    \<and> retransmit_time c = 0"
      using assms by (simp add: resend_failure_no_cb client_initialize_Some)
  qed
qed

theorem client_timeout_resend_backoff_witness:
  "event solicit_client \<noteq> None \<and> state solicit_client = DHCP6_STATE_SOLICITATION
   \<and> 0 \<le> sd_event_now_r sched_ok \<and> 0 \<le> add_time_r sched_ok \<and> 0 \<le> set_priority_r sched_ok
   \<and> (\<exists>c. client_timeout_resend systemd_consts observer sched_ok solicit_client []
             = Return (0, Some c, [])
          \<and> retransmit_time c = 900000
          \<and> map_option src_usec (timeout_resend c) = Some 5900000)
   \<and> (\<exists>c. client_timeout_resend systemd_consts observer sched_ok
               (solicit_client\<lparr>retransmit_time := 900000\<rparr>) []
             = Return (0, Some c, [])
          \<and> retransmit_time c = 1710000
          \<and> map_option src_usec (timeout_resend c) = Some 6710000)
   \<and> (\<exists>c. client_timeout_resend systemd_consts observer sched_ok
               (solicit_client\<lparr>retransmit_time := 70000000\<rparr>) []
             = Return (0, Some c, [])
          \<and> retransmit_time c = 108000000
          \<and> map_option src_usec (timeout_resend c) = Some 113000000)
   \<and> sd_event_now_r (sched_ok\<lparr>sd_event_now_r := - 22\<rparr>) < 0
   \<and> cb solicit_client = None
   \<and> (\<exists>c. client_timeout_resend systemd_consts observer (sched_ok\<lparr>sd_event_now_r := - 22\<rparr>)
               solicit_client []
             = Return (0, Some c, [])
          \<and> retransmit_time c = 0)
   \<and> add_time_r (sched_ok\<lparr>add_time_r := - 12\<rparr>) < 0
   \<and> (\<exists>r c. client_timeout_resend systemd_consts observer (sched_ok\<lparr>add_time_r := - 12\<rparr>)
                 solicit_client []
               = client_timeout_resend_error observer r c []
            \<and> r < 0 \<and> retransmit_time c = 900000)"
proof -
  have h1: "event solicit_client \<noteq> None"
           "event (solicit_client\<lparr>retransmit_time := 900000\<rparr>) \<noteq> None"
           "event (solicit_client\<lparr>retransmit_time := 70000000\<rparr>) \<noteq> None"
    by (simp_all add: solicit_client_def example_client_def)
  have h2: "state solicit_client = DHCP6_STATE_SOLICITATION"
           "state (solicit_client\<lparr>retransmit_time := 900000\<rparr>) = DHCP6_STATE_SOLICITATION"
           "state (solicit_client\<lparr>retransmit_time := 70000000\<rparr>) = DHCP6_STATE_SOLICITATION"
    by (simp_all add: solicit_client_def)
  have h3: "0 \<le> sd_event_now_r sched_ok \<and> 0 \<le> add_time_r sched_ok \<and> 0 \<le> set_priority_r sched_ok"
    by (simp add: sched_ok_def)
  have k: "sd_event_now_usec sched_ok = 5000000" "random_u32 sched_ok = 0"
    "retransmit_time solicit_client = 0" "cb solicit_client = None"
    "DHCP6_SOL_TIMEOUT systemd_consts = 1000000" "DHCP6_SOL_MAX_RT systemd_consts = 120000000"
    by (simp_all add: sched_ok_def systemd_consts_def solicit_client_def example_client_def)
  have cr: "client_timeout_compute_random systemd_consts 0 1000000 = 900000"
    "client_timeout_compute_random systemd_consts 0 900000 = 810000"
    "client_timeout_compute_random systemd_consts 0 120000000 = 108000000"
    by (simp_all add: client_timeout_compute_random_def systemd_consts_def)
  have w1: "\<exists>c. client_timeout_resend systemd_consts observer sched_ok solicit_client []
             = Return (0, Some c, [])
          \<and> retransmit_time c = 900000
          \<and> map_option src_usec (timeout_resend c) = Some 5900000"
    using client_timeout_resend_backoff
            [where client = solicit_client and env = sched_ok and K = systemd_consts
               and call = observer and seen = "[]", OF h1(1) h2(1)] h3
    by (simp add: Let_def k cr)
  have w2: "\<exists>c. client_timeout_resend systemd_consts observer sched_ok
               (solicit_client\<lparr>retransmit_time := 900000\<rparr>) []
             = Return (0, Some c, [])
          \<and> retransmit_time c = 1710000
          \<and> map_option src_usec (timeout_resend c) = Some 6710000"
    using client_timeout_resend_backoff
            [where client = "solicit_client\<lparr>retransmit_time := 900000\<rparr>" and env = sched_ok
               and K = systemd_consts and call = observer and seen = "[]", OF h1(2) h2(2)] h3
    by (simp add: Let_def k cr)
  have w3: "\<exists>c. client_timeout_resend systemd_consts observer sched_ok
               (solicit_client\<lparr>retransmit_time := 70000000\<rparr>) []
             = Return (0, Some c, [])
          \<and> retransmit_time c = 108000000
          \<and> map_option src_usec (timeout_resend c) = Some 113000000"
    using client_timeout_resend_backoff
            [where client = "solicit_client\<lparr>retransmit_time := 70000000\<rparr>" and env = sched_ok
               and K = systemd_consts and call = observer and seen = "[]", OF h1(3) h2(3)] h3
    by (simp add: Let_def k cr)
  have w4: "\<exists>c. client_timeout_resend systemd_consts observer (sched_ok\<lparr>sd_event_now_r := - 22\<rparr>)
               solicit_client []
             = Return (0, Some c, [])
          \<and> retransmit_time c = 0"
  proof -
    have neg: "sd_event_now_r (sched_ok\<lparr>sd_event_now_r := - 22\<rparr>) < 0" by simp
    from client_timeout_resend_backoff
            [where client = solicit_client and env = "sched_ok\<lparr>sd_event_now_r := - 22\<rparr>"
               and K = systemd_consts and call = observer and seen = "[]", OF h1(1) h2(1),
             unfolded Let_def]
         neg k(4)
    show ?thesis by blast
  qed
  have w5: "\<exists>r c. client_timeout_resend systemd_consts observer (sched_ok\<lparr>add_time_r := - 12\<rparr>)
                 solicit_client []
               = client_timeout_resend_error observer r c []
            \<and> r < 0 \<and> retransmit_time c = 900000"
    using client_timeout_resend_backoff
            [where client = solicit_client and env = "sched_ok\<lparr>add_time_r := - 12\<rparr>"
               and K = systemd_consts and call = observer and seen = "[]", OF h1(1) h2(1)] h3
    by (simp add: Let_def k cr)
  show ?thesis
    using h1(1) h2(1) h3 k(4) w1 w2 w3 w4 w5 by simp
qed

text \<open>
  The claim C5 as stated fails on a firing that is not cut off by the count check but
  whose clock read fails: \<open>sd_event_now\<close> returns \<open>-EINVAL\<close>, the update is skipped and
  the client is stopped, so \<open>retransmit_time\<close> (unset before) is 0 afterwards, not the
  jittered initial timeout, which is 900000 for the draw 0.
\<close>

theorem client_timeout_resend_clock_failure:
  "state solicit_client = DHCP6_STATE_SOLICITATION
   \<and> retransmit_time solicit_client = 0
   \<and> client_timeout_resend systemd_consts observer (sched_ok\<lparr>sd_event_now_r := - 22\<rparr>)
        solicit_client []
      = Return (0, Some (example_client
                  \<lparr>ia_na := \<lparr>ia_type = 3, ia_id = 7, timeout_t1 = None, timeout_t2 = None\<rparr>\<rparr>),
                [])
   \<and> retransmit_time (example_client
          \<lparr>ia_na := \<lparr>ia_type = 3, ia_id = 7, timeout_t1 = None, timeout_t2 = None\<rparr>\<rparr>) = 0
   \<and> client_timeout_compute_random systemd_consts
        (random_u32 (sched_ok\<lparr>sd_event_now_r := - 22\<rparr>)) (DHCP6_SOL_TIMEOUT systemd_consts)
      = 900000"
proof -
  have h: "cb solicit_client = None" "event solicit_client \<noteq> None"
    "state solicit_client = DHCP6_STATE_SOLICITATION" "retransmit_time solicit_client = 0"
    by (simp_all add: solicit_client_def example_client_def)
  have f: "sd_event_now_r (sched_ok\<lparr>sd_event_now_r := - 22\<rparr>) < 0
            \<or> add_time_r (sched_ok\<lparr>sd_event_now_r := - 22\<rparr>) < 0
            \<or> set_priority_r (sched_ok\<lparr>sd_event_now_r := - 22\<rparr>) < 0"
    by simp
  have i: "snd (client_initialize (Some solicit_client)) =
      Some (example_client
              \<lparr>ia_na := \<lparr>ia_type = 3, ia_id = 7, timeout_t1 = None, timeout_t2 = None\<rparr>\<rparr>)"
    by (simp add: client_initialize_Some solicit_client_def example_client_def)
  have cr: "client_timeout_compute_random systemd_consts
        (random_u32 (sched_ok\<lparr>sd_event_now_r := - 22\<rparr>)) (DHCP6_SOL_TIMEOUT systemd_consts)
      = 900000"
    by (simp add: client_timeout_compute_random_def systemd_consts_def sched_ok_def)
  have z: "retransmit_time (example_client
          \<lparr>ia_na := \<lparr>ia_type = 3, ia_id = 7, timeout_t1 = None, timeout_t2 = None\<rparr>\<rparr>) = 0"
    by (simp add: example_client_def)
  show ?thesis
    unfolding resend_failure_no_cb[OF h(1,2,3) f] i
    using h(3,4) cr z by simp
qed

section \<open>Attaching an event loop\<close>

text \<open>
  C7, at the input where the code departs from it.  A client without an event loop is
  given no loop (\<open>NULL\<close>), and \<open>sd_event_default\<close> fails with \<open>-ENOMEM\<close>:
  \<open>sd_dhcp6_client_attach_event\<close> returns 0, and the client still has no event loop
  (and the priority is not stored).
\<close>

theorem sd_dhcp6_client_attach_event_swallows_failure:
  "sd_dhcp6_client_attach_event (- ENOMEM, 0) (Some (example_client\<lparr>event := None\<rparr>)) None 7
     = (0, Some (example_client\<lparr>event := None\<rparr>))
   \<and> event (example_client\<lparr>event := None\<rparr>) = None
   \<and> - ENOMEM < 0"
  by (simp add: sd_dhcp6_client_attach_event_def sd_event_default_def ENOMEM_def)

section \<open>Resource keys\<close>

text \<open>
  C9.  Hashing and equality of resource keys agree: keys that are equal have the same
  hash under every hash key, whatever function of the three fields the hash is; and
  equality is decided by all three fields: it holds exactly when class, type and name
  are equal, so changing any one of them alone breaks it.
\<close>

theorem keyHash_agrees_with_keyEqual:
  "(keyEqual a b \<longrightarrow> keyHash mix a hash_key = keyHash mix b hash_key)
   \<and> (keyEqual a b \<longleftrightarrow>
        key_class a = key_class b \<and> key_type a = key_type b \<and> key_name a = key_name b)
   \<and> (keyEqual a (a\<lparr>key_class := c\<rparr>) \<longleftrightarrow> c = key_class a)
   \<and> (keyEqual a (a\<lparr>key_type := t\<rparr>) \<longleftrightarrow> t = key_type a)
   \<and> (keyEqual a (a\<lparr>key_name := n\<rparr>) \<longleftrightarrow> n = key_name a)"
  by (auto simp: keyEqual_def keyHash_def)

theorem keyHash_agrees_with_keyEqual_witness:
  "keyEqual \<lparr>key_class = DNS_CLASS_IN, key_type = DNS_TYPE_A, key_name = ''example.com''\<rparr>
            \<lparr>key_class = DNS_CLASS_IN, key_type = DNS_TYPE_A, key_name = ''example.com''\<rparr>
   \<and> keyHash example_mix
        \<lparr>key_class = DNS_CLASS_IN, key_type = DNS_TYPE_A, key_name = ''example.com''\<rparr> HASH_KEY
     = keyHash example_mix
        \<lparr>key_class = DNS_CLASS_IN, key_type = DNS_TYPE_A, key_name = ''example.com''\<rparr> HASH_KEY
   \<and> keyHash example_mix
        \<lparr>key_class = DNS_CLASS_IN, key_type = DNS_TYPE_A, key_name = ''example.com''\<rparr> HASH_KEY
     = 0x1001A
   \<and> \<not> keyEqual \<lparr>key_class = DNS_CLASS_IN, key_type = DNS_TYPE_A, key_name = ''example.com''\<rparr>
              \<lparr>key_class = DNS_CLASS_IN, key_type = DNS_TYPE_A, key_name = ''example.org''\<rparr>"
proof -
  have e: "keyEqual \<lparr>key_class = DNS_CLASS_IN, key_type = DNS_TYPE_A, key_name = ''example.com''\<rparr>
            \<lparr>key_class = DNS_CLASS_IN, key_type = DNS_TYPE_A, key_name = ''example.com''\<rparr>"
    by (simp add: keyEqual_def)
  have v: "keyHash example_mix
        \<lparr>key_class = DNS_CLASS_IN, key_type = DNS_TYPE_A, key_name = ''example.com''\<rparr> HASH_KEY
     = 0x1001A"
    by (simp add: keyHash_def example_mix_def HASH_KEY_def DNS_CLASS_IN_def DNS_TYPE_A_def)
  have n: "\<not> keyEqual \<lparr>key_class = DNS_CLASS_IN, key_type = DNS_TYPE_A, key_name = ''example.com''\<rparr>
              \<lparr>key_class = DNS_CLASS_IN, key_type = DNS_TYPE_A, key_name = ''example.org''\<rparr>"
    by (simp add: keyEqual_def)
  show ?thesis
    using keyHash_agrees_with_keyEqual
            [where a = "\<lparr>key_class = DNS_CLASS_IN, key_type = DNS_TYPE_A, key_name = ''example.com''\<rparr>"
               and b = "\<lparr>key_class = DNS_CLASS_IN, key_type = DNS_TYPE_A, key_name = ''example.com''\<rparr>"
               and mix = example_mix and hash_key = HASH_KEY]
          e v n
    by simp
qed

end
